theory Spec2Isabelle
  imports Complex_Main "HOL-Library.Signed_Division" "HOL-Library.Stream"
begin

section \<open>Values of the Go runtime and of the client libraries\<close>

text \<open>
  The exporter is the second program of \<^verbatim>\<open>src/main.go\<close> (the one with resource metrics,
  from the second \<^verbatim>\<open>package main\<close> on). Go's fixed-width integers are modelled as
  \<^typ>\<open>int\<close>; the only integer arithmetic of the program is the \<^verbatim>\<open>int64\<close> accumulation
  of usage figures, where the wrap-around is written out, and the subtraction of two
  clock readings, where Go saturates.
\<close>

subsection \<open>\<^verbatim>\<open>time.Time\<close> and \<^verbatim>\<open>time.Duration\<close>\<close>

text \<open>
  A \<^verbatim>\<open>time.Time\<close> obtained from \<^verbatim>\<open>time.Now()\<close> carries a wall-clock reading and a
  monotonic reading, both in nanoseconds. \<^verbatim>\<open>Unix()\<close> reads the wall clock; \<^verbatim>\<open>Sub\<close> of
  two such values subtracts the monotonic readings and saturates at the bounds of
  \<^verbatim>\<open>int64\<close> (\<^verbatim>\<open>subMono\<close> of package \<^verbatim>\<open>time\<close>).
\<close>

record Time =
  wall :: int
  mono :: int

type_synonym Duration = int

definition Second :: Duration where
  "Second = 1000000000"

definition maxDuration :: Duration where
  "maxDuration = 2 ^ 63 - 1"

definition minDuration :: Duration where
  "minDuration = - (2 ^ 63)"

definition Unix :: "Time \<Rightarrow> int" where
  "Unix t = wall t div 1000000000"

definition Sub :: "Time \<Rightarrow> Time \<Rightarrow> Duration" where
  "Sub t u =
     (let d = mono t - mono u
      in if maxDuration < d then maxDuration
         else if d < minDuration then minDuration
         else d)"

text \<open>\<^verbatim>\<open>Duration.Milliseconds\<close> is \<^verbatim>\<open>int64(d) / 1e6\<close>; Go's integer division truncates
  towards zero.\<close>

definition Milliseconds :: "Duration \<Rightarrow> int" where
  "Milliseconds d = d sdiv 1000000"

subsection \<open>\<^verbatim>\<open>float64\<close> values as the expressions that compute them\<close>

text \<open>
  A gauge value is a \<^verbatim>\<open>float64\<close>. The program only converts integers and adds, divides
  and multiplies the results, so a value is kept as the expression the program evaluates:
  \<open>F64_of_int n\<close> is the conversion \<^verbatim>\<open>float64(n)\<close> (and a constant such as \<^verbatim>\<open>1024\<close>).
  \<open>ideal\<close> reads an expression over the reals, that is, without the rounding of the
  machine operations.
\<close>

datatype f64 =
  F64_of_int int
  | F64_add f64 f64
  | F64_div f64 f64
  | F64_mul f64 f64

fun ideal :: "f64 \<Rightarrow> real" where
  "ideal (F64_of_int n) = of_int n"
| "ideal (F64_add a b) = ideal a + ideal b"
| "ideal (F64_div a b) = ideal a / ideal b"
| "ideal (F64_mul a b) = ideal a * ideal b"

text \<open>\<^verbatim>\<open>Duration.Seconds\<close>:
  \<^verbatim>\<open>sec := d / Second; nsec := d % Second; return float64(sec) + float64(nsec)/1e9\<close>.\<close>

definition Seconds :: "Duration \<Rightarrow> f64" where
  "Seconds d =
     (let sec = d sdiv Second; nsec = d smod Second
      in F64_add (F64_of_int sec) (F64_div (F64_of_int nsec) (F64_of_int 1000000000)))"

subsection \<open>\<^verbatim>\<open>fmt.Sprintf("%d", n)\<close>\<close>

definition digit_char :: "nat \<Rightarrow> char" where
  "digit_char n = char_of (48 + n)"

function digits :: "nat \<Rightarrow> string" where
  "digits n = (if n < 10 then [digit_char n] else digits (n div 10) @ [digit_char (n mod 10)])"
  by pat_completeness auto
termination
  by (relation "measure (\<lambda>n. n)") auto

declare digits.simps [simp del]

definition Sprintf_d :: "int \<Rightarrow> string" where
  "Sprintf_d n = (if n < 0 then CHR ''-'' # digits (nat (- n)) else digits (nat n))"

section \<open>The metric registry\<close>

text \<open>One constructor for each metric vector declared in the \<^verbatim>\<open>var\<close> block.\<close>

datatype metric =
  deploymentDowntimeDuration
  | deploymentRestartCount
  | deploymentStatus
  | deploymentHeartbeat
  | deploymentRecoveryTimeMs
  | deploymentDowntimeStart
  | deploymentConditionStatus
  | deploymentReplicasDesired
  | deploymentReplicasReady
  | deploymentReplicasAvailable
  | deploymentReplicasUnavailable
  | deploymentReplicasUpdated
  | deploymentCreationTime
  | deploymentGeneration
  | deploymentObservedGeneration
  | deploymentAvailabilityRatio
  | deploymentCPUUsage
  | deploymentMemoryUsage
  | deploymentCPURequest
  | deploymentMemoryRequest
  | deploymentCPULimit
  | deploymentMemoryLimit
  | deploymentCPUUsagePercent
  | deploymentMemoryUsagePercent

text \<open>The lines written by \<^verbatim>\<open>log.Printf\<close> and \<^verbatim>\<open>log.Println\<close>, by format, with the
  arguments of the format (an error is kept as its text).\<close>

datatype logline =
  ErrorCreatingWatcher string
  | StartedWatching
  | WatchError
  | WatcherStopped
  | ErrorListingDeployments string
  | ErrorListingPods string string string
  | Recovered Time string string f64 f64
  | WentDown Time string string

text \<open>
  What a call does to the world outside the tracker, in program order:
  \<open>GaugeSet m ls v\<close> is \<^verbatim>\<open>m.WithLabelValues(ls...).Set(v)\<close>,
  \<open>CounterInc m ls\<close> is \<^verbatim>\<open>m.WithLabelValues(ls...).Inc()\<close>,
  \<open>Sleep d\<close> is \<^verbatim>\<open>time.Sleep(d)\<close>.
\<close>

datatype effect =
  GaugeSet metric "string list" f64
  | CounterInc metric "string list"
  | Log logline
  | Sleep Duration

record Registry =
  gauges :: "metric \<times> string list \<rightharpoonup> f64"
  counters :: "metric \<times> string list \<rightharpoonup> nat"

fun apply_effect :: "Registry \<Rightarrow> effect \<Rightarrow> Registry" where
  "apply_effect r (GaugeSet m ls v) = r\<lparr>gauges := (gauges r)((m, ls) \<mapsto> v)\<rparr>"
| "apply_effect r (CounterInc m ls) =
     r\<lparr>counters := (counters r)((m, ls) \<mapsto>
        (case counters r (m, ls) of None \<Rightarrow> 1 | Some c \<Rightarrow> Suc c))\<rparr>"
| "apply_effect r (Log l) = r"
| "apply_effect r (Sleep d) = r"

definition apply_effects :: "Registry \<Rightarrow> effect list \<Rightarrow> Registry" where
  "apply_effects r es = foldl apply_effect r es"

section \<open>Objects of the orchestration API\<close>

text \<open>
  \<^verbatim>\<open>resource.Quantity\<close> belongs to the Kubernetes API machinery, not to this repository.
  The program uses a quantity through \<^verbatim>\<open>IsZero\<close>, \<^verbatim>\<open>Add\<close>, \<^verbatim>\<open>MilliValue\<close> and \<^verbatim>\<open>Value\<close>
  and through its zero value (a declared variable, a key missing from a resource list),
  so the type is a parameter \<open>'q\<close> and these five are passed in.
\<close>

record 'q QuantityOps =
  IsZero :: "'q \<Rightarrow> bool"
  Add :: "'q \<Rightarrow> 'q \<Rightarrow> 'q"
  MilliValue :: "'q \<Rightarrow> int"
  Value :: "'q \<Rightarrow> int"
  zeroValue :: 'q

text \<open>The keys \<^verbatim>\<open>corev1.ResourceCPU\<close> and \<^verbatim>\<open>corev1.ResourceMemory\<close> of a resource list.\<close>

definition ResourceCPU :: string where
  "ResourceCPU = ''cpu''"

definition ResourceMemory :: string where
  "ResourceMemory = ''memory''"

type_synonym 'q ResourceList = "string \<rightharpoonup> 'q"

text \<open>Indexing a Go map with a missing key gives the zero value of the element type.\<close>

definition index :: "'q QuantityOps \<Rightarrow> 'q ResourceList \<Rightarrow> string \<Rightarrow> 'q" where
  "index Q m k = (case m k of None \<Rightarrow> zeroValue Q | Some q \<Rightarrow> q)"

text \<open>A container of a pod (\<^verbatim>\<open>container.Resources.Requests\<close>,
  \<^verbatim>\<open>container.Resources.Limits\<close>); a pod is the list \<^verbatim>\<open>pod.Spec.Containers\<close>.\<close>

record 'q Container =
  Requests :: "'q ResourceList"
  Limits :: "'q ResourceList"

type_synonym 'q Pod = "'q Container list"

text \<open>A container of a pod-metrics object (\<^verbatim>\<open>container.Usage\<close>); a pod-metrics object is the
  list \<^verbatim>\<open>pm.Containers\<close>.\<close>

record 'q ContainerMetrics =
  Usage :: "'q ResourceList"

type_synonym 'q PodMetrics = "'q ContainerMetrics list"

text \<open>The fields of \<^verbatim>\<open>appsv1.Deployment\<close> that the program reads. \<open>Spec_Replicas\<close> is the
  pointer \<^verbatim>\<open>deployment.Spec.Replicas\<close> (\<open>None\<close> is \<^verbatim>\<open>nil\<close>); a condition is the pair of
  its \<^verbatim>\<open>Type\<close> and \<^verbatim>\<open>Status\<close> strings. The label selector is only handed on to the
  list calls, whose results are inputs of the model.\<close>

record Deployment =
  Namespace :: string
  Name :: string
  CreationTimestamp :: Time
  Generation :: int
  Spec_Replicas :: "int option"
  Status_ObservedGeneration :: int
  Status_ReadyReplicas :: int
  Status_AvailableReplicas :: int
  Status_UnavailableReplicas :: int
  Status_UpdatedReplicas :: int
  Status_Conditions :: "(string \<times> string) list"

text \<open>What one call of \<open>processDeployment\<close> receives from outside: the reading of
  \<^verbatim>\<open>time.Now()\<close>, the result of the pod list call and the result of the pod-metrics list
  call (\<open>Inl\<close> is the error, kept as its text). The last one is only looked at when the
  call is made.\<close>

record 'q CallEnv =
  timeNow :: Time
  podList :: "string + 'q Pod list"
  podMetricsList :: "string + 'q PodMetrics list"

section \<open>The tracker\<close>

text \<open>\<open>metricsClient\<close> is \<open>None\<close> when the pointer is \<^verbatim>\<open>nil\<close>; the Kubernetes clientset is
  represented by the results of its calls.\<close>

record DeploymentTracker =
  metricsClient :: "unit option"
  downtimeStart :: "string \<rightharpoonup> Time"
  namespace :: string

text \<open>The tracker that \<^verbatim>\<open>main\<close> builds: \<^verbatim>\<open>downtimeStart: make(map[string]time.Time)\<close>.\<close>

definition newTracker :: "unit option \<Rightarrow> string \<Rightarrow> DeploymentTracker" where
  "newTracker mc nsp = \<lparr>metricsClient = mc, downtimeStart = Map.empty, namespace = nsp\<rparr>"

section \<open>\<^verbatim>\<open>collectResourceMetrics\<close>\<close>

text \<open>The four running totals of the loop over pods and containers.\<close>

record 'q Totals =
  totalCPURequest :: 'q
  totalMemoryRequest :: 'q
  totalCPULimit :: 'q
  totalMemoryLimit :: 'q

definition addContainer :: "'q QuantityOps \<Rightarrow> 'q Totals \<Rightarrow> 'q Container \<Rightarrow> 'q Totals" where
  "addContainer Q tot c =
     (let cpuReq = index Q (Requests c) ResourceCPU;
          tot1 = (if \<not> IsZero Q cpuReq
                  then tot\<lparr>totalCPURequest := Add Q (totalCPURequest tot) cpuReq\<rparr> else tot);
          memReq = index Q (Requests c) ResourceMemory;
          tot2 = (if \<not> IsZero Q memReq
                  then tot1\<lparr>totalMemoryRequest := Add Q (totalMemoryRequest tot1) memReq\<rparr> else tot1);
          cpuLim = index Q (Limits c) ResourceCPU;
          tot3 = (if \<not> IsZero Q cpuLim
                  then tot2\<lparr>totalCPULimit := Add Q (totalCPULimit tot2) cpuLim\<rparr> else tot2);
          memLim = index Q (Limits c) ResourceMemory;
          tot4 = (if \<not> IsZero Q memLim
                  then tot3\<lparr>totalMemoryLimit := Add Q (totalMemoryLimit tot3) memLim\<rparr> else tot3)
      in tot4)"

definition sumPods :: "'q QuantityOps \<Rightarrow> 'q Pod list \<Rightarrow> 'q Totals" where
  "sumPods Q pods =
     foldl (\<lambda>tot pod. foldl (addContainer Q) tot pod)
       \<lparr>totalCPURequest = zeroValue Q, totalMemoryRequest = zeroValue Q,
        totalCPULimit = zeroValue Q, totalMemoryLimit = zeroValue Q\<rparr> pods"

text \<open>\<^verbatim>\<open>totalCPUUsage\<close> and \<^verbatim>\<open>totalMemoryUsage\<close> are \<^verbatim>\<open>int64\<close>: \<^verbatim>\<open>+=\<close> wraps around.\<close>

definition wrap64 :: "int \<Rightarrow> int" where
  "wrap64 n = (n + 2 ^ 63) mod 2 ^ 64 - 2 ^ 63"

definition addUsage :: "'q QuantityOps \<Rightarrow> int \<times> int \<Rightarrow> 'q ContainerMetrics \<Rightarrow> int \<times> int" where
  "addUsage Q acc c =
     (let cpuUsage = index Q (Usage c) ResourceCPU;
          memUsage = index Q (Usage c) ResourceMemory
      in (wrap64 (fst acc + MilliValue Q cpuUsage), wrap64 (snd acc + Value Q memUsage)))"

definition sumUsage :: "'q QuantityOps \<Rightarrow> 'q PodMetrics list \<Rightarrow> int \<times> int" where
  "sumUsage Q pms = foldl (\<lambda>acc pm. foldl (addUsage Q) acc pm) (0, 0) pms"

definition MiB :: "int \<Rightarrow> f64" where
  "MiB n = F64_div (F64_div (F64_of_int n) (F64_of_int 1024)) (F64_of_int 1024)"

definition percent :: "int \<Rightarrow> int \<Rightarrow> f64" where
  "percent usage request =
     F64_mul (F64_div (F64_of_int usage) (F64_of_int request)) (F64_of_int 100)"

definition usageEffects ::
  "'q QuantityOps \<Rightarrow> string list \<Rightarrow> 'q Totals \<Rightarrow> 'q PodMetrics list \<Rightarrow> effect list" where
  "usageEffects Q ls tot pms =
     (let (totalCPUUsage, totalMemoryUsage) = sumUsage Q pms
      in [GaugeSet deploymentCPUUsage ls (F64_of_int totalCPUUsage),
          GaugeSet deploymentMemoryUsage ls (MiB totalMemoryUsage)]
         @ (if MilliValue Q (totalCPURequest tot) > 0
            then [GaugeSet deploymentCPUUsagePercent ls
                    (percent totalCPUUsage (MilliValue Q (totalCPURequest tot)))]
            else [])
         @ (if Value Q (totalMemoryRequest tot) > 0
            then [GaugeSet deploymentMemoryUsagePercent ls
                    (percent totalMemoryUsage (Value Q (totalMemoryRequest tot)))]
            else []))"

definition collectResourceMetrics ::
  "'q QuantityOps \<Rightarrow> DeploymentTracker \<Rightarrow> 'q CallEnv \<Rightarrow> string \<Rightarrow> string \<Rightarrow> effect list" where
  "collectResourceMetrics Q t env nsp deploymentName =
     (case podList env of
        Inl err \<Rightarrow> [Log (ErrorListingPods nsp deploymentName err)]
      | Inr pods \<Rightarrow>
          (let tot = sumPods Q pods; ls = [nsp, deploymentName]
           in [GaugeSet deploymentCPURequest ls (F64_of_int (MilliValue Q (totalCPURequest tot))),
               GaugeSet deploymentMemoryRequest ls (MiB (Value Q (totalMemoryRequest tot))),
               GaugeSet deploymentCPULimit ls (F64_of_int (MilliValue Q (totalCPULimit tot))),
               GaugeSet deploymentMemoryLimit ls (MiB (Value Q (totalMemoryLimit tot)))]
              @ (case metricsClient t of
                   None \<Rightarrow> []
                 | Some _ \<Rightarrow>
                     (case podMetricsList env of
                        Inl err \<Rightarrow> []
                      | Inr pms \<Rightarrow> usageEffects Q ls tot pms))))"

section \<open>\<^verbatim>\<open>processDeployment\<close>\<close>

definition entityKey :: "Deployment \<Rightarrow> string" where
  "entityKey d = Namespace d @ ''/'' @ Name d"

text \<open>The \<^verbatim>\<open>switch\<close> on the status string of a condition.\<close>

definition statusValue :: "string \<Rightarrow> f64" where
  "statusValue conditionStatus =
     (if conditionStatus = ''True'' then F64_of_int 1
      else if conditionStatus = ''False'' then F64_of_int 0
      else F64_of_int (- 1))"

definition conditionEffects :: "string \<Rightarrow> string \<Rightarrow> (string \<times> string) list \<Rightarrow> effect list" where
  "conditionEffects ns name conds =
     map (\<lambda>(conditionType, conditionStatus).
            GaugeSet deploymentConditionStatus [ns, name, conditionType, conditionStatus]
              (statusValue conditionStatus)) conds"

definition replicaEffects :: "Deployment \<Rightarrow> effect list" where
  "replicaEffects d =
     (let ls = [Namespace d, Name d]
      in (case Spec_Replicas d of
            None \<Rightarrow> []
          | Some r \<Rightarrow> [GaugeSet deploymentReplicasDesired ls (F64_of_int r)])
         @ [GaugeSet deploymentReplicasReady ls (F64_of_int (Status_ReadyReplicas d)),
            GaugeSet deploymentReplicasAvailable ls (F64_of_int (Status_AvailableReplicas d)),
            GaugeSet deploymentReplicasUnavailable ls (F64_of_int (Status_UnavailableReplicas d)),
            GaugeSet deploymentReplicasUpdated ls (F64_of_int (Status_UpdatedReplicas d))])"

definition ratioEffects :: "Deployment \<Rightarrow> effect list" where
  "ratioEffects d =
     (case Spec_Replicas d of
        None \<Rightarrow> []
      | Some r \<Rightarrow>
          (let available = Sprintf_d (Status_ReadyReplicas d);
               desired = Sprintf_d r;
               ratio = (if r > 0
                        then F64_div (F64_of_int (Status_ReadyReplicas d)) (F64_of_int r)
                        else F64_of_int 0)
           in [GaugeSet deploymentAvailabilityRatio [Namespace d, Name d, available, desired]
                 ratio]))"

text \<open>Everything the function writes before it looks at readiness, in program order:
  heartbeat, metadata, replica counts, availability ratio, resource metrics, conditions.\<close>

definition gaugeEffects ::
  "'q QuantityOps \<Rightarrow> DeploymentTracker \<Rightarrow> 'q CallEnv \<Rightarrow> Deployment \<Rightarrow> effect list" where
  "gaugeEffects Q t env d =
     (let ns = Namespace d; name = Name d
      in [GaugeSet deploymentHeartbeat [ns, name] (F64_of_int (Unix (timeNow env))),
          GaugeSet deploymentCreationTime [ns, name] (F64_of_int (Unix (CreationTimestamp d))),
          GaugeSet deploymentGeneration [ns, name] (F64_of_int (Generation d)),
          GaugeSet deploymentObservedGeneration [ns, name]
            (F64_of_int (Status_ObservedGeneration d))]
         @ replicaEffects d
         @ ratioEffects d
         @ collectResourceMetrics Q t env ns name
         @ conditionEffects ns name (Status_Conditions d))"

text \<open>\<^verbatim>\<open>desiredReplicas := int32(0); if deployment.Spec.Replicas != nil { ... }\<close>\<close>

definition desiredReplicas :: "Deployment \<Rightarrow> int" where
  "desiredReplicas d = (case Spec_Replicas d of None \<Rightarrow> 0 | Some r \<Rightarrow> r)"

definition isReady :: "Deployment \<Rightarrow> bool" where
  "isReady d =
     (Status_ReadyReplicas d = desiredReplicas d \<and> desiredReplicas d > 0
      \<and> Status_UnavailableReplicas d = 0)"

text \<open>The \<^verbatim>\<open>if isReady\<close> statement: the new map and what is written.\<close>

definition trackStatus ::
  "(string \<rightharpoonup> Time) \<Rightarrow> Time \<Rightarrow> Deployment \<Rightarrow> (string \<rightharpoonup> Time) \<times> effect list" where
  "trackStatus m now d =
     (let ns = Namespace d; name = Name d; key = entityKey d
      in if isReady d
         then (case m key of
                 Some startTime \<Rightarrow>
                   (let downtime = Sub now startTime;
                        downtimeSeconds = Seconds downtime;
                        downtimeMs = F64_of_int (Milliseconds downtime)
                    in (m(key := None),
                        [GaugeSet deploymentStatus [ns, name] (F64_of_int 1),
                         Log (Recovered now ns name downtimeSeconds downtimeMs),
                         GaugeSet deploymentDowntimeDuration [ns, name] downtimeSeconds,
                         GaugeSet deploymentRecoveryTimeMs [ns, name] downtimeMs,
                         CounterInc deploymentRestartCount [ns, name]]))
               | None \<Rightarrow> (m, [GaugeSet deploymentStatus [ns, name] (F64_of_int 1)]))
         else (case m key of
                 None \<Rightarrow>
                   (m(key \<mapsto> now),
                    [GaugeSet deploymentStatus [ns, name] (F64_of_int 0),
                     GaugeSet deploymentDowntimeStart [ns, name] (F64_of_int (Unix now)),
                     Log (WentDown now ns name)])
               | Some startTime \<Rightarrow> (m, [GaugeSet deploymentStatus [ns, name] (F64_of_int 0)])))"

definition processDeployment ::
  "'q QuantityOps \<Rightarrow> DeploymentTracker \<Rightarrow> 'q CallEnv \<Rightarrow> Deployment
     \<Rightarrow> DeploymentTracker \<times> effect list" where
  "processDeployment Q t env d =
     (let (m, es) = trackStatus (downtimeStart t) (timeNow env) d
      in (t\<lparr>downtimeStart := m\<rparr>, gaugeEffects Q t env d @ es))"

section \<open>The two feeders\<close>

subsection \<open>\<^verbatim>\<open>watchDeployments\<close>\<close>

datatype EventType = Added | Modified | Deleted | Bookmark | Error

text \<open>\<open>Object\<close> is the outcome of asserting that \<^verbatim>\<open>event.Object\<close> is a deployment.\<close>

datatype Object = DeploymentObject Deployment | OtherObject

record Event =
  Type :: EventType
  Object :: Object

text \<open>
  The events that a subscription delivers before its channel is closed, each with what the
  call of \<open>processDeployment\<close> for it would receive from outside. The loop over the channel
  stops at an error event; an object that is not a deployment is skipped.
\<close>

fun rangeResultChan ::
  "'q QuantityOps \<Rightarrow> DeploymentTracker \<Rightarrow> (Event \<times> 'q CallEnv) list
     \<Rightarrow> DeploymentTracker \<times> effect list" where
  "rangeResultChan Q t [] = (t, [])"
| "rangeResultChan Q t ((event, env) # rest) =
     (if Type event = Error then (t, [Log WatchError])
      else (case Object event of
              OtherObject \<Rightarrow> rangeResultChan Q t rest
            | DeploymentObject deployment \<Rightarrow>
                (let (t1, es1) = processDeployment Q t env deployment;
                     (t2, es2) = rangeResultChan Q t1 rest
                 in (t2, es1 @ es2))))"

text \<open>The body of the outer \<^verbatim>\<open>for\<close>: \<open>Inl err\<close> is a failed \<^verbatim>\<open>Watch\<close> call.\<close>

definition watchBody ::
  "'q QuantityOps \<Rightarrow> DeploymentTracker \<Rightarrow> string + (Event \<times> 'q CallEnv) list
     \<Rightarrow> DeploymentTracker \<times> effect list" where
  "watchBody Q t w =
     (case w of
        Inl err \<Rightarrow> (t, [Log (ErrorCreatingWatcher err), Sleep (5 * Second)])
      | Inr events \<Rightarrow>
          (let (t1, es) = rangeResultChan Q t events
           in (t1, [Log StartedWatching] @ es @ [Log WatcherStopped, Sleep (5 * Second)])))"

text \<open>The first iterations of the outer \<^verbatim>\<open>for\<close>, one for each outcome of \<^verbatim>\<open>Watch\<close> in the
  list.\<close>

fun watchIterations ::
  "'q QuantityOps \<Rightarrow> DeploymentTracker \<Rightarrow> (string + (Event \<times> 'q CallEnv) list) list
     \<Rightarrow> DeploymentTracker \<times> effect list" where
  "watchIterations Q t [] = (t, [])"
| "watchIterations Q t (w # ws) =
     (let (t1, es1) = watchBody Q t w;
          (t2, es2) = watchIterations Q t1 ws
      in (t2, es1 @ es2))"

text \<open>
  What a run of a function that loops does, as seen from outside: it either returns, with the
  tracker it leaves, or completes an iteration of its loop, with the effects of that
  iteration, and goes on. A run can go on for ever.
\<close>

codatatype execution =
  Returned DeploymentTracker
  | Iterated "effect list" execution

text \<open>
  The function itself. The stream holds the outcome of every \<^verbatim>\<open>Watch\<close> call to come: an
  iteration of \<^verbatim>\<open>for { ... }\<close> calls \<^verbatim>\<open>Watch\<close>, runs the body on its outcome and starts the
  next iteration on the tracker that the body leaves. The loop has no \<^verbatim>\<open>break\<close> out of it
  and the function no \<^verbatim>\<open>return\<close>.
\<close>

primcorec watchDeployments ::
  "'q QuantityOps \<Rightarrow> DeploymentTracker \<Rightarrow> (string + (Event \<times> 'q CallEnv) list) stream
     \<Rightarrow> execution" where
  "watchDeployments Q t ws =
     Iterated (snd (watchBody Q t (shd ws)))
       (watchDeployments Q (fst (watchBody Q t (shd ws))) (stl ws))"

text \<open>Whether a run returns after exactly \<open>n\<close> iterations, and the effects of its first \<open>n\<close>
  iterations, one list for each iteration (fewer if it returns before).\<close>

fun returnsAfter :: "nat \<Rightarrow> execution \<Rightarrow> bool" where
  "returnsAfter 0 r = (case r of Returned t \<Rightarrow> True | Iterated es r' \<Rightarrow> False)"
| "returnsAfter (Suc n) r = (case r of Returned t \<Rightarrow> False | Iterated es r' \<Rightarrow> returnsAfter n r')"

fun firstIterations :: "nat \<Rightarrow> execution \<Rightarrow> effect list list" where
  "firstIterations 0 r = []"
| "firstIterations (Suc n) r =
     (case r of Returned t \<Rightarrow> [] | Iterated es r' \<Rightarrow> es # firstIterations n r')"

text \<open>The rest of a run after its first \<open>n\<close> iterations (a run that has returned stays as it
  is).\<close>

fun afterIterations :: "nat \<Rightarrow> execution \<Rightarrow> execution" where
  "afterIterations 0 r = r"
| "afterIterations (Suc n) r =
     (case r of Returned t \<Rightarrow> Returned t | Iterated es r' \<Rightarrow> afterIterations n r')"

subsection \<open>\<^verbatim>\<open>periodicScrape\<close>\<close>

text \<open>\<open>processDeployment\<close> called for each element of a list in turn, on one tracker: the
  loop over \<^verbatim>\<open>deployments.Items\<close>, and any sequence of calls that the feeders make one
  after the other.\<close>

fun processEach ::
  "'q QuantityOps \<Rightarrow> DeploymentTracker \<Rightarrow> (Deployment \<times> 'q CallEnv) list
     \<Rightarrow> DeploymentTracker \<times> effect list" where
  "processEach Q t [] = (t, [])"
| "processEach Q t ((deployment, env) # rest) =
     (let (t1, es1) = processDeployment Q t env deployment;
          (t2, es2) = processEach Q t1 rest
      in (t2, es1 @ es2))"



section \<open>Two calls on one tracker at the same time\<close>

text \<open>
  \<^verbatim>\<open>main\<close> starts \<open>watchDeployments\<close> and \<open>periodicScrape\<close> as two goroutines on the same
  tracker, and the tracker has no lock. A call reads \<^verbatim>\<open>t.downtimeStart\<close> once and then,
  depending on what it found, writes it once; between the read and the write the other
  goroutine can run.
\<close>

text \<open>The part of \<open>processDeployment\<close> up to and including its read of the map
  (\<^verbatim>\<open>startTime, exists := t.downtimeStart[key]\<close>): what the read finds, and the effects so
  far.\<close>

definition lookupStep ::
  "'q QuantityOps \<Rightarrow> DeploymentTracker \<Rightarrow> 'q CallEnv \<Rightarrow> Deployment
     \<Rightarrow> Time option \<times> effect list" where
  "lookupStep Q t env d =
     (downtimeStart t (entityKey d),
      gaugeEffects Q t env d
      @ [GaugeSet deploymentStatus [Namespace d, Name d]
           (F64_of_int (if isReady d then 1 else 0))])"

text \<open>The part after the read, which acts on what the read found: the \<^verbatim>\<open>delete\<close> or the
  assignment to the map, and the effects around it. The tracker is the one at the time of
  this part.\<close>

definition finishStep ::
  "DeploymentTracker \<Rightarrow> 'q CallEnv \<Rightarrow> Deployment \<Rightarrow> Time option
     \<Rightarrow> DeploymentTracker \<times> effect list" where
  "finishStep t env d found =
     (let ns = Namespace d; name = Name d; key = entityKey d; now = timeNow env
      in if isReady d
         then (case found of
                 Some startTime \<Rightarrow>
                   (let downtime = Sub now startTime;
                        downtimeSeconds = Seconds downtime;
                        downtimeMs = F64_of_int (Milliseconds downtime)
                    in (t\<lparr>downtimeStart := (downtimeStart t)(key := None)\<rparr>,
                        [Log (Recovered now ns name downtimeSeconds downtimeMs),
                         GaugeSet deploymentDowntimeDuration [ns, name] downtimeSeconds,
                         GaugeSet deploymentRecoveryTimeMs [ns, name] downtimeMs,
                         CounterInc deploymentRestartCount [ns, name]]))
               | None \<Rightarrow> (t, []))
         else (case found of
                 None \<Rightarrow>
                   (t\<lparr>downtimeStart := (downtimeStart t)(key \<mapsto> now)\<rparr>,
                    [GaugeSet deploymentDowntimeStart [ns, name] (F64_of_int (Unix now)),
                     Log (WentDown now ns name)])
               | Some startTime \<Rightarrow> (t, [])))"

text \<open>A run of the two goroutines in which the watch feeder's call \<open>w\<close> and the poll feeder's
  call \<open>p\<close> overlap: both read the map before either of them writes it.\<close>

definition overlapped ::
  "'q QuantityOps \<Rightarrow> DeploymentTracker \<Rightarrow> Deployment \<times> 'q CallEnv \<Rightarrow> Deployment \<times> 'q CallEnv
     \<Rightarrow> DeploymentTracker \<times> effect list" where
  "overlapped Q t w p =
     (let (foundW, es1) = lookupStep Q t (snd w) (fst w);
          (foundP, es2) = lookupStep Q t (snd p) (fst p);
          (t1, es3) = finishStep t (snd w) (fst w) foundW;
          (t2, es4) = finishStep t1 (snd p) (fst p) foundP
      in (t2, es1 @ es2 @ es3 @ es4))"

section \<open>Notions used to state the properties\<close>

text \<open>The metric that an effect writes to.\<close>

fun metricOf :: "effect \<Rightarrow> metric option" where
  "metricOf (GaugeSet m ls v) = Some m"
| "metricOf (CounterInc m ls) = Some m"
| "metricOf (Log l) = None"
| "metricOf (Sleep d) = None"

text \<open>Whether an effect is a call of \<^verbatim>\<open>time.Sleep\<close>.\<close>

fun isSleep :: "effect \<Rightarrow> bool" where
  "isSleep (Sleep d) = True"
| "isSleep (GaugeSet m ls v) = False"
| "isSleep (CounterInc m ls) = False"
| "isSleep (Log l) = False"

definition stateMetrics :: "metric set" where
  "stateMetrics = {deploymentStatus, deploymentDowntimeDuration, deploymentRecoveryTimeMs,
     deploymentDowntimeStart, deploymentRestartCount}"

definition resourceMetrics :: "metric set" where
  "resourceMetrics = {deploymentCPUUsage, deploymentMemoryUsage, deploymentCPURequest,
     deploymentMemoryRequest, deploymentCPULimit, deploymentMemoryLimit,
     deploymentCPUUsagePercent, deploymentMemoryUsagePercent}"

text \<open>A monotonic clock reading of the Go runtime: a non-negative \<^verbatim>\<open>int64\<close>.\<close>

definition monotonicReading :: "Time \<Rightarrow> bool" where
  "monotonicReading t = (0 \<le> mono t \<and> mono t \<le> maxDuration)"

text \<open>
  The record that the specification expects for a key after a sequence of calls: take the
  calls for the key, latest first, as long as their verdict is not-ready; if there is none
  (the key was never seen, or its latest verdict is ready) there is no record, otherwise the
  record holds the time of the earliest call of that run.
\<close>

definition downSince :: "string \<Rightarrow> (Deployment \<times> 'q CallEnv) list \<Rightarrow> Time option" where
  "downSince k calls =
     (let run = takeWhile (\<lambda>c. \<not> isReady (fst c)) (rev (filter (\<lambda>c. entityKey (fst c) = k) calls))
      in if run = [] then None else Some (timeNow (snd (last run))))"

text \<open>The number of Down\<open>\<rightarrow>\<close>Up transitions in a sequence of verdicts, from the verdict before
  it (\<open>True\<close> is ready; a key never seen is Up).\<close>

fun downUp :: "bool \<Rightarrow> bool list \<Rightarrow> nat" where
  "downUp prev [] = 0"
| "downUp prev (v # vs) = (if \<not> prev \<and> v then 1 else 0) + downUp v vs"

subsection \<open>Concrete inputs\<close>

text \<open>An instance of the quantity parameter for concrete runs: a quantity as a whole number
  of nano-units, read in milli-units and in units rounded away from zero.\<close>

definition awayFromZero :: "int \<Rightarrow> int \<Rightarrow> int" where
  "awayFromZero n k = sgn n * ((\<bar>n\<bar> + k - 1) div k)"

definition nanoOps :: "int QuantityOps" where
  "nanoOps = \<lparr>IsZero = (\<lambda>q. q = 0), Add = (\<lambda>a b. a + b),
     MilliValue = (\<lambda>q. awayFromZero q 1000000), Value = (\<lambda>q. awayFromZero q 1000000000),
     zeroValue = 0\<rparr>"

text \<open>The entity of the scenarios of the specification, \<^verbatim>\<open>{ns:"prod", name:"api"}\<close>, with the
  given desired, ready and unavailable counts, and a clock reading at a number of
  milliseconds.\<close>

definition api :: "int option \<Rightarrow> int \<Rightarrow> int \<Rightarrow> Deployment" where
  "api desired ready unavailable =
     \<lparr>Namespace = ''prod'', Name = ''api'', CreationTimestamp = \<lparr>wall = 0, mono = 0\<rparr>,
      Generation = 1, Spec_Replicas = desired, Status_ObservedGeneration = 1,
      Status_ReadyReplicas = ready, Status_AvailableReplicas = ready,
      Status_UnavailableReplicas = unavailable, Status_UpdatedReplicas = ready,
      Status_Conditions = [(''Available'', ''True''), (''Progressing'', ''Unknown'')]\<rparr>"

definition atMs :: "int \<Rightarrow> Time" where
  "atMs ms = \<lparr>wall = 1700000000000000000 + ms * 1000000, mono = ms * 1000000\<rparr>"

text \<open>A call at that time whose pod list holds one container requesting 250 milli-CPU and
  64 MiB, with a metrics client that reports 100 milli-CPU and 32 MiB in use.\<close>

definition callAt :: "int \<Rightarrow> int CallEnv" where
  "callAt ms =
     \<lparr>timeNow = atMs ms,
      podList = Inr [[\<lparr>Requests = [ResourceCPU \<mapsto> 250000000, ResourceMemory \<mapsto> 67108864000000000],
                      Limits = Map.empty\<rparr>]],
      podMetricsList = Inr [[\<lparr>Usage = [ResourceCPU \<mapsto> 100000000,
                                        ResourceMemory \<mapsto> 33554432000000000]\<rparr>]]\<rparr>"

definition emptyRegistry :: Registry where
  "emptyRegistry = \<lparr>gauges = Map.empty, counters = Map.empty\<rparr>"

section \<open>Effects and the registry\<close>

lemma metricOf_usageEffects:
  "e \<in> set (usageEffects Q ls tot pms) \<Longrightarrow> metricOf e \<in> Some ` resourceMetrics"
  by (auto simp: usageEffects_def resourceMetrics_def split: prod.splits if_splits)

lemma metricOf_collectResourceMetrics:
  "e \<in> set (collectResourceMetrics Q t env ns name) \<Longrightarrow>
     metricOf e \<in> insert None (Some ` resourceMetrics)"
  apply (auto simp: collectResourceMetrics_def Let_def split: sum.splits option.splits
      dest: metricOf_usageEffects)
  apply (auto simp: resourceMetrics_def)
  done

lemma metricOf_replicaEffects:
  "e \<in> set (replicaEffects d) \<Longrightarrow>
     metricOf e \<in> Some ` {deploymentReplicasDesired, deploymentReplicasReady,
       deploymentReplicasAvailable, deploymentReplicasUnavailable, deploymentReplicasUpdated}"
  by (auto simp: replicaEffects_def Let_def split: option.splits)

lemma metricOf_ratioEffects:
  "e \<in> set (ratioEffects d) \<Longrightarrow> metricOf e = Some deploymentAvailabilityRatio"
  by (auto simp: ratioEffects_def Let_def split: option.splits)

lemma metricOf_conditionEffects:
  "e \<in> set (conditionEffects ns name cs) \<Longrightarrow> metricOf e = Some deploymentConditionStatus"
  by (auto simp: conditionEffects_def)

lemma metricOf_gaugeEffects:
  "e \<in> set (gaugeEffects Q t env d) \<Longrightarrow> metricOf e \<notin> Some ` stateMetrics"
  unfolding gaugeEffects_def Let_def set_append Un_iff
  apply (elim disjE)
  apply (auto simp: stateMetrics_def dest!: metricOf_replicaEffects metricOf_ratioEffects
      metricOf_conditionEffects metricOf_collectResourceMetrics)
  apply (auto simp: resourceMetrics_def)
  done

lemma filter_gaugeEffects:
  "m \<in> stateMetrics \<Longrightarrow> filter (\<lambda>e. metricOf e = Some m) (gaugeEffects Q t env d) = []"
  by (auto simp: filter_empty_conv dest: metricOf_gaugeEffects)

lemma apply_effects_append:
  "apply_effects r (es @ es') = apply_effects (apply_effects r es) es'"
  by (simp add: apply_effects_def)

lemma apply_effects_Nil: "apply_effects r [] = r"
  by (simp add: apply_effects_def)

lemma apply_effects_Cons: "apply_effects r (e # es) = apply_effects (apply_effect r e) es"
  by (simp add: apply_effects_def)

lemma apply_effect_other:
  "metricOf e \<noteq> Some m \<Longrightarrow>
     gauges (apply_effect r e) (m, ls) = gauges r (m, ls)
     \<and> counters (apply_effect r e) (m, ls) = counters r (m, ls)"
  by (cases e) auto

lemma apply_effects_other:
  "\<forall>e \<in> set es. metricOf e \<noteq> Some m \<Longrightarrow>
     gauges (apply_effects r es) (m, ls) = gauges r (m, ls)
     \<and> counters (apply_effects r es) (m, ls) = counters r (m, ls)"
proof (induction es arbitrary: r)
  case Nil
  show ?case by (simp add: apply_effects_Nil)
next
  case (Cons e es)
  then show ?case
    by (simp add: apply_effects_Cons apply_effect_other)
qed

lemma snd_processDeployment:
  "snd (processDeployment Q t env d) =
     gaugeEffects Q t env d @ snd (trackStatus (downtimeStart t) (timeNow env) d)"
  by (simp add: processDeployment_def split: prod.splits)

lemma fst_processDeployment:
  "downtimeStart (fst (processDeployment Q t env d)) =
     fst (trackStatus (downtimeStart t) (timeNow env) d)"
  by (simp add: processDeployment_def split: prod.splits)

lemma filter_status_trackStatus:
  "filter (\<lambda>e. metricOf e = Some deploymentStatus) (snd (trackStatus m now d)) =
     [GaugeSet deploymentStatus [Namespace d, Name d] (F64_of_int (if isReady d then 1 else 0))]"
  by (simp add: trackStatus_def Let_def split: option.splits)

lemma gauge_status_trackStatus:
  "gauges (apply_effects r (snd (trackStatus m now d))) (deploymentStatus, [Namespace d, Name d]) =
     Some (F64_of_int (if isReady d then 1 else 0))"
  by (simp add: trackStatus_def Let_def apply_effects_def split: option.splits)

section \<open>The readiness verdict\<close>

text \<open>
  Claim C1. The verdict of a processed deployment is ready exactly when the ready count
  equals the desired count, the desired count is greater than 0 and the unavailable count
  is 0, an absent desired count being read as 0. Each call writes the status gauge of the
  entity once, 1 for ready and 0 for not ready, so the registry holds that value afterwards;
  with a desired count of 0 the verdict is not ready and the gauge is 0, whatever the
  other counts are.
\<close>

theorem C1_readiness_verdict:
  "(isReady d \<longleftrightarrow>
      Status_ReadyReplicas d = desiredReplicas d \<and> 0 < desiredReplicas d
      \<and> Status_UnavailableReplicas d = 0)
   \<and> desiredReplicas d = (case Spec_Replicas d of None \<Rightarrow> 0 | Some r \<Rightarrow> r)
   \<and> filter (\<lambda>e. metricOf e = Some deploymentStatus) (snd (processDeployment Q t env d)) =
       [GaugeSet deploymentStatus [Namespace d, Name d]
          (F64_of_int (if isReady d then 1 else 0))]
   \<and> gauges (apply_effects r (snd (processDeployment Q t env d)))
         (deploymentStatus, [Namespace d, Name d]) =
       Some (F64_of_int (if isReady d then 1 else 0))
   \<and> (desiredReplicas d = 0 \<longrightarrow>
        \<not> isReady d
        \<and> gauges (apply_effects r (snd (processDeployment Q t env d)))
            (deploymentStatus, [Namespace d, Name d]) = Some (F64_of_int 0))"
proof -
  have verdict: "isReady d \<longleftrightarrow>
      Status_ReadyReplicas d = desiredReplicas d \<and> 0 < desiredReplicas d
      \<and> Status_UnavailableReplicas d = 0"
    by (simp add: isReady_def)
  have desired: "desiredReplicas d = (case Spec_Replicas d of None \<Rightarrow> 0 | Some r \<Rightarrow> r)"
    by (simp add: desiredReplicas_def)
  have writes: "filter (\<lambda>e. metricOf e = Some deploymentStatus)
      (snd (processDeployment Q t env d)) =
       [GaugeSet deploymentStatus [Namespace d, Name d]
          (F64_of_int (if isReady d then 1 else 0))]"
    by (simp only: snd_processDeployment filter_append filter_status_trackStatus
        filter_gaugeEffects [of deploymentStatus, unfolded stateMetrics_def, simplified] append_Nil)
  have gauge: "gauges (apply_effects r (snd (processDeployment Q t env d)))
         (deploymentStatus, [Namespace d, Name d]) =
       Some (F64_of_int (if isReady d then 1 else 0))"
    by (simp only: snd_processDeployment apply_effects_append gauge_status_trackStatus)
  have zero: "desiredReplicas d = 0 \<longrightarrow> \<not> isReady d"
    by (simp add: isReady_def)
  from verdict desired writes gauge zero show ?thesis
    by presburger
qed

theorem C1_readiness_verdict_witness:
  "desiredReplicas (api (Some 0) 0 0) = 0 \<and> desiredReplicas (api None 0 0) = 0
   \<and> \<not> isReady (api (Some 0) 0 0) \<and> \<not> isReady (api None 0 0)
   \<and> isReady (api (Some 3) 3 0)
   \<and> gauges (apply_effects emptyRegistry
        (snd (processDeployment nanoOps (newTracker None []) (callAt 0) (api (Some 0) 0 0))))
        (deploymentStatus, [''prod'', ''api'']) = Some (F64_of_int 0)"
  using C1_readiness_verdict [of "api (Some 0) 0 0" nanoOps "newTracker None []" "callAt 0" emptyRegistry]
    C1_readiness_verdict [of "api None 0 0" nanoOps "newTracker None []" "callAt 0" emptyRegistry]
    C1_readiness_verdict [of "api (Some 3) 3 0" nanoOps "newTracker None []" "callAt 0" emptyRegistry]
  by (simp add: api_def desiredReplicas_def)

section \<open>Sequences of calls\<close>

lemma fst_trackStatus:
  "fst (trackStatus m now d) k =
     (if k = entityKey d
      then (if isReady d then None else (case m k of None \<Rightarrow> Some now | Some T \<Rightarrow> Some T))
      else m k)"
  by (simp add: trackStatus_def Let_def split: option.splits)

lemma downtimeStart_processDeployment:
  "downtimeStart (fst (processDeployment Q t env d)) k =
     (if k = entityKey d
      then (if isReady d then None
            else (case downtimeStart t k of None \<Rightarrow> Some (timeNow env) | Some T \<Rightarrow> Some T))
      else downtimeStart t k)"
  by (simp only: fst_processDeployment fst_trackStatus)

lemma processEach_append:
  "processEach Q t (xs @ ys) =
     (fst (processEach Q (fst (processEach Q t xs)) ys),
      snd (processEach Q t xs) @ snd (processEach Q (fst (processEach Q t xs)) ys))"
  by (induction xs arbitrary: t) (auto split: prod.splits)

lemma processEach_Cons:
  "processEach Q t ((d, env) # rest) =
     (fst (processEach Q (fst (processDeployment Q t env d)) rest),
      snd (processDeployment Q t env d)
        @ snd (processEach Q (fst (processDeployment Q t env d)) rest))"
  by (simp split: prod.splits)

lemma processEach_single:
  "processEach Q t [(d, env)] = processDeployment Q t env d"
  by (simp split: prod.splits)

lemma downSince_Nil: "downSince k [] = None"
  by (simp add: downSince_def)

lemma downSince_snoc:
  "downSince k (xs @ [c]) =
     (if entityKey (fst c) = k
      then (if isReady (fst c) then None
            else (case downSince k xs of None \<Rightarrow> Some (timeNow (snd c)) | Some T \<Rightarrow> Some T))
      else downSince k xs)"
  by (simp add: downSince_def Let_def)

lemma store_downSince:
  "downtimeStart (fst (processEach Q (newTracker mc nsp) calls)) k = downSince k calls"
proof (induction calls rule: rev_induct)
  case Nil
  show ?case by (simp add: newTracker_def downSince_Nil)
next
  case (snoc c calls)
  obtain d env where c: "c = (d, env)" by (cases c)
  show ?case
    unfolding processEach_append c processEach_single fst_conv snd_conv
      downtimeStart_processDeployment downSince_snoc snoc.IH
    by (simp split: option.splits)
qed

lemma downSince_Some_iff:
  "downSince k calls \<noteq> None \<longleftrightarrow>
     filter (\<lambda>c. entityKey (fst c) = k) calls \<noteq> []
     \<and> \<not> isReady (fst (last (filter (\<lambda>c. entityKey (fst c) = k) calls)))"
proof (induction calls rule: rev_induct)
  case Nil
  show ?case by (simp add: downSince_Nil)
next
  case (snoc c calls)
  from snoc.IH show ?case
    by (cases "downSince k calls") (auto simp: downSince_snoc)
qed

lemma downSince_origin:
  "downSince k calls = Some T \<Longrightarrow>
     \<exists>before d env after. calls = before @ (d, env) # after \<and> entityKey d = k
       \<and> \<not> isReady d \<and> timeNow env = T \<and> downSince k before = None
       \<and> (\<forall>c \<in> set after. entityKey (fst c) = k \<longrightarrow> \<not> isReady (fst c))"
proof (induction calls rule: rev_induct)
  case Nil
  then show ?case by (simp add: downSince_Nil)
next
  case (snoc c calls)
  obtain d env where c: "c = (d, env)" by (cases c)
  show ?case
  proof (cases "downSince k calls")
    case None
    with snoc.prems have "entityKey d = k" "\<not> isReady d" "timeNow env = T"
      by (auto simp: downSince_snoc c split: if_splits)
    with None have "calls @ [c] = calls @ (d, env) # [] \<and> entityKey d = k
       \<and> \<not> isReady d \<and> timeNow env = T \<and> downSince k calls = None
       \<and> (\<forall>c \<in> set []. entityKey (fst c) = k \<longrightarrow> \<not> isReady (fst c))"
      by (simp add: c)
    then show ?thesis by blast
  next
    case (Some T')
    with snoc.prems have T: "T' = T" and ok: "entityKey d = k \<longrightarrow> \<not> isReady d"
      by (auto simp: downSince_snoc c split: if_splits)
    from snoc.IH Some T obtain before d0 env0 after where
      "calls = before @ (d0, env0) # after" "entityKey d0 = k" "\<not> isReady d0"
      "timeNow env0 = T" "downSince k before = None"
      "\<forall>c \<in> set after. entityKey (fst c) = k \<longrightarrow> \<not> isReady (fst c)"
      by blast
    with ok have "calls @ [c] = before @ (d0, env0) # (after @ [c]) \<and> entityKey d0 = k
       \<and> \<not> isReady d0 \<and> timeNow env0 = T \<and> downSince k before = None
       \<and> (\<forall>c \<in> set (after @ [c]). entityKey (fst c) = k \<longrightarrow> \<not> isReady (fst c))"
      by (auto simp: c)
    then show ?thesis by blast
  qed
qed

lemma downSince_unseen:
  "\<forall>c \<in> set calls. entityKey (fst c) \<noteq> k \<Longrightarrow> downSince k calls = None"
  by (simp add: downSince_def)

section \<open>The downtime records\<close>

text \<open>
  Claim C2. The store is a map, so it holds at most one record for a key. After any sequence
  of calls on the tracker that \<^verbatim>\<open>main\<close> builds, the record of a key is the one the
  specification expects (\<open>downSince\<close>): there is a record exactly when the key has been seen
  and its latest verdict is not-ready; the record then holds the time of a not-ready call
  before which the key had no record and after which no call for the key was ready; a key
  never seen has no record.
\<close>

theorem C2_record_correspondence:
  "downtimeStart (fst (processEach Q (newTracker mc nsp) calls)) k = downSince k calls
   \<and> (downtimeStart (fst (processEach Q (newTracker mc nsp) calls)) k \<noteq> None \<longleftrightarrow>
        filter (\<lambda>c. entityKey (fst c) = k) calls \<noteq> []
        \<and> \<not> isReady (fst (last (filter (\<lambda>c. entityKey (fst c) = k) calls))))
   \<and> (\<forall>T. downtimeStart (fst (processEach Q (newTracker mc nsp) calls)) k = Some T \<longrightarrow>
        (\<exists>before d env after. calls = before @ (d, env) # after \<and> entityKey d = k
           \<and> \<not> isReady d \<and> timeNow env = T
           \<and> downtimeStart (fst (processEach Q (newTracker mc nsp) before)) k = None
           \<and> (\<forall>c \<in> set after. entityKey (fst c) = k \<longrightarrow> \<not> isReady (fst c))))
   \<and> ((\<forall>c \<in> set calls. entityKey (fst c) \<noteq> k) \<longrightarrow>
        downtimeStart (fst (processEach Q (newTracker mc nsp) calls)) k = None)"
  unfolding store_downSince
  using downSince_Some_iff [of k calls] downSince_origin [of k calls] downSince_unseen [of calls k]
  by blast


theorem C2_record_correspondence_witness:
  "downtimeStart (fst (processEach nanoOps (newTracker None [])
      [(api (Some 3) 3 0, callAt 0), (api (Some 3) 0 3, callAt 10000),
       (api (Some 3) 0 3, callAt 11000)])) ''prod/api'' = Some (atMs 10000)
   \<and> downtimeStart (fst (processEach nanoOps (newTracker None [])
      [(api (Some 3) 3 0, callAt 0), (api (Some 3) 0 3, callAt 10000),
       (api (Some 3) 3 0, callAt 12500)])) ''prod/api'' = None
   \<and> list_all (\<lambda>c. entityKey (fst c) \<noteq> ''prod/web'') [(api (Some 3) 0 3, callAt 10000)]
   \<and> downtimeStart (fst (processEach nanoOps (newTracker None [])
      [(api (Some 3) 0 3, callAt 10000)])) ''prod/web'' = None"
  using C2_record_correspondence [of nanoOps None "[]"
      "[(api (Some 3) 3 0, callAt 0), (api (Some 3) 0 3, callAt 10000),
        (api (Some 3) 0 3, callAt 11000)]" "''prod/api''"]
    C2_record_correspondence [of nanoOps None "[]"
      "[(api (Some 3) 3 0, callAt 0), (api (Some 3) 0 3, callAt 10000),
        (api (Some 3) 3 0, callAt 12500)]" "''prod/api''"]
    C2_record_correspondence [of nanoOps None "[]" "[(api (Some 3) 0 3, callAt 10000)]" "''prod/web''"]
  by (simp add: downSince_def entityKey_def api_def isReady_def desiredReplicas_def callAt_def)

lemma processEach_keeps_record:
  "downtimeStart t k = Some T \<Longrightarrow>
   \<forall>c \<in> set mid. entityKey (fst c) = k \<longrightarrow> \<not> isReady (fst c) \<Longrightarrow>
   downtimeStart (fst (processEach Q t mid)) k = Some T"
proof (induction mid arbitrary: t)
  case Nil
  then show ?case by simp
next
  case (Cons c mid)
  obtain d env where c: "c = (d, env)" by (cases c)
  from Cons.prems have "downtimeStart (fst (processDeployment Q t env d)) k = Some T"
    by (auto simp: downtimeStart_processDeployment c)
  with Cons.prems have "downtimeStart (fst (processEach Q (fst (processDeployment Q t env d)) mid)) k = Some T"
    by (intro Cons.IH) auto
  then show ?case
    by (simp only: c processEach_Cons fst_conv)
qed

lemma Sub_exact:
  "monotonicReading u \<Longrightarrow> monotonicReading t \<Longrightarrow> Sub t u = mono t - mono u"
  by (auto simp: Sub_def monotonicReading_def maxDuration_def minDuration_def Let_def)

lemma ideal_Seconds: "ideal (Seconds d) = real_of_int d / 1000000000"
proof -
  have "d sdiv Second * Second + d smod Second = d"
    by (rule sdiv_mult_smod_eq)
  then have "real_of_int (d sdiv Second) * 1000000000 + real_of_int (d smod Second) = real_of_int d"
    unfolding Second_def
    by (metis of_int_add of_int_mult of_int_numeral)
  then show ?thesis
    by (simp add: Seconds_def Let_def field_simps)
qed

lemma trackStatus_recover:
  "isReady d \<Longrightarrow> m (entityKey d) = Some T \<Longrightarrow>
   trackStatus m now d =
     (m(entityKey d := None),
      [GaugeSet deploymentStatus [Namespace d, Name d] (F64_of_int 1),
       Log (Recovered now (Namespace d) (Name d) (Seconds (Sub now T))
              (F64_of_int (Milliseconds (Sub now T)))),
       GaugeSet deploymentDowntimeDuration [Namespace d, Name d] (Seconds (Sub now T)),
       GaugeSet deploymentRecoveryTimeMs [Namespace d, Name d]
         (F64_of_int (Milliseconds (Sub now T))),
       CounterInc deploymentRestartCount [Namespace d, Name d]])"
  by (simp add: trackStatus_def Let_def)

lemma stateMetrics_mem:
  "deploymentStatus \<in> stateMetrics" "deploymentDowntimeDuration \<in> stateMetrics"
  "deploymentRecoveryTimeMs \<in> stateMetrics" "deploymentDowntimeStart \<in> stateMetrics"
  "deploymentRestartCount \<in> stateMetrics"
  by (simp_all add: stateMetrics_def)

lemma filter_processDeployment:
  "m \<in> stateMetrics \<Longrightarrow>
   filter (\<lambda>e. metricOf e = Some m) (snd (processDeployment Q t env d)) =
     filter (\<lambda>e. metricOf e = Some m) (snd (trackStatus (downtimeStart t) (timeNow env) d))"
  by (simp only: snd_processDeployment filter_append filter_gaugeEffects append_Nil)

section \<open>Recovery accounting\<close>

text \<open>
  Claim C3. An entity without a record is observed not-ready at \<open>T1\<close> (the record is created
  with that time), then any calls follow that are not ready observations of the entity, then
  it is observed ready at \<open>T2\<close>. That call writes the recovery time once, as the
  milliseconds of \<open>Sub T2 T1\<close>, writes the downtime duration once, as its seconds,
  increments the restart counter once, so by exactly 1, and removes the record. For two
  monotonic clock readings the milliseconds are \<open>T2 - T1\<close> divided by \<open>10\<^sup>6\<close> with
  truncation, and the seconds, read over the reals, are \<open>T2 - T1\<close> divided by \<open>10\<^sup>9\<close>.
\<close>

theorem C3_recovery_round_trip:
  assumes up: "downtimeStart t (entityKey d1) = None"
    and down: "\<not> isReady d1"
    and mid: "\<forall>c \<in> set mid. entityKey (fst c) = entityKey d1 \<longrightarrow> \<not> isReady (fst c)"
    and ready: "isReady d2"
    and same: "Namespace d2 = Namespace d1" "Name d2 = Name d1"
    and t1: "t1 = fst (processDeployment Q t env1 d1)"
    and t2: "t2 = fst (processEach Q t1 mid)"
    and t3: "(t3, es) = processDeployment Q t2 env2 d2"
    and elapsed: "elapsed = Sub (timeNow env2) (timeNow env1)"
  shows "downtimeStart t1 (entityKey d1) = Some (timeNow env1)
    \<and> filter (\<lambda>e. metricOf e = Some deploymentRecoveryTimeMs) es =
        [GaugeSet deploymentRecoveryTimeMs [Namespace d1, Name d1]
           (F64_of_int (Milliseconds elapsed))]
    \<and> filter (\<lambda>e. metricOf e = Some deploymentDowntimeDuration) es =
        [GaugeSet deploymentDowntimeDuration [Namespace d1, Name d1] (Seconds elapsed)]
    \<and> filter (\<lambda>e. metricOf e = Some deploymentRestartCount) es =
        [CounterInc deploymentRestartCount [Namespace d1, Name d1]]
    \<and> counters (apply_effects r es) (deploymentRestartCount, [Namespace d1, Name d1]) =
        Some (Suc (case counters r (deploymentRestartCount, [Namespace d1, Name d1]) of
                     None \<Rightarrow> 0 | Some c \<Rightarrow> c))
    \<and> downtimeStart t3 (entityKey d1) = None
    \<and> (monotonicReading (timeNow env1) \<and> monotonicReading (timeNow env2) \<longrightarrow>
         Milliseconds elapsed = (mono (timeNow env2) - mono (timeNow env1)) sdiv 1000000
         \<and> ideal (Seconds elapsed) =
             real_of_int (mono (timeNow env2) - mono (timeNow env1)) / 1000000000)"
proof -
  have key: "entityKey d2 = entityKey d1"
    using same by (simp add: entityKey_def)
  have rec1: "downtimeStart t1 (entityKey d1) = Some (timeNow env1)"
    using up down by (simp add: t1 downtimeStart_processDeployment)
  then have rec2: "downtimeStart t2 (entityKey d2) = Some (timeNow env1)"
    unfolding t2 key using mid by (rule processEach_keeps_record)
  have track: "trackStatus (downtimeStart t2) (timeNow env2) d2 =
     ((downtimeStart t2)(entityKey d2 := None),
      [GaugeSet deploymentStatus [Namespace d2, Name d2] (F64_of_int 1),
       Log (Recovered (timeNow env2) (Namespace d2) (Name d2) (Seconds elapsed)
              (F64_of_int (Milliseconds elapsed))),
       GaugeSet deploymentDowntimeDuration [Namespace d2, Name d2] (Seconds elapsed),
       GaugeSet deploymentRecoveryTimeMs [Namespace d2, Name d2]
         (F64_of_int (Milliseconds elapsed)),
       CounterInc deploymentRestartCount [Namespace d2, Name d2]])"
    unfolding elapsed using ready rec2 by (rule trackStatus_recover)
  have es: "es = snd (processDeployment Q t2 env2 d2)"
    and t3': "t3 = fst (processDeployment Q t2 env2 d2)"
    using t3 by (metis snd_conv, metis fst_conv)
  have ms: "filter (\<lambda>e. metricOf e = Some deploymentRecoveryTimeMs) es =
        [GaugeSet deploymentRecoveryTimeMs [Namespace d1, Name d1]
           (F64_of_int (Milliseconds elapsed))]"
    by (simp add: es filter_processDeployment stateMetrics_mem track same)
  have secs: "filter (\<lambda>e. metricOf e = Some deploymentDowntimeDuration) es =
        [GaugeSet deploymentDowntimeDuration [Namespace d1, Name d1] (Seconds elapsed)]"
    by (simp add: es filter_processDeployment stateMetrics_mem track same)
  have inc: "filter (\<lambda>e. metricOf e = Some deploymentRestartCount) es =
        [CounterInc deploymentRestartCount [Namespace d1, Name d1]]"
    by (simp add: es filter_processDeployment stateMetrics_mem track same)
  have "counters (apply_effects r (gaugeEffects Q t2 env2 d2))
          (deploymentRestartCount, [Namespace d1, Name d1]) =
        counters r (deploymentRestartCount, [Namespace d1, Name d1])"
    using apply_effects_other [of "gaugeEffects Q t2 env2 d2" deploymentRestartCount r]
      metricOf_gaugeEffects [of _ Q t2 env2 d2]
    by (auto simp: stateMetrics_def)
  then have counter: "counters (apply_effects r es)
        (deploymentRestartCount, [Namespace d1, Name d1]) =
        Some (Suc (case counters r (deploymentRestartCount, [Namespace d1, Name d1]) of
                     None \<Rightarrow> 0 | Some c \<Rightarrow> c))"
    by (simp add: es snd_processDeployment apply_effects_append track same
        apply_effects_Cons apply_effects_Nil split: option.splits)
  have gone: "downtimeStart t3 (entityKey d1) = None"
    using ready by (simp add: t3' downtimeStart_processDeployment key)
  have exact: "monotonicReading (timeNow env1) \<and> monotonicReading (timeNow env2) \<longrightarrow>
         Milliseconds elapsed = (mono (timeNow env2) - mono (timeNow env1)) sdiv 1000000
         \<and> ideal (Seconds elapsed) =
             real_of_int (mono (timeNow env2) - mono (timeNow env1)) / 1000000000"
    by (simp add: elapsed Sub_exact ideal_Seconds Milliseconds_def)
  from rec1 ms secs inc counter gone exact show ?thesis
    by blast
qed


theorem C3_recovery_round_trip_witness:
  "downtimeStart (newTracker None []) (entityKey (api (Some 3) 0 3)) = None
   \<and> \<not> isReady (api (Some 3) 0 3) \<and> isReady (api (Some 3) 3 0)
   \<and> monotonicReading (timeNow (callAt 10000)) \<and> monotonicReading (timeNow (callAt 12500))
   \<and> filter (\<lambda>e. metricOf e = Some deploymentRecoveryTimeMs)
        (snd (processDeployment nanoOps
           (fst (processEach nanoOps
              (fst (processDeployment nanoOps (newTracker None []) (callAt 10000)
                 (api (Some 3) 0 3)))
              [(api (Some 3) 0 3, callAt 11000)]))
           (callAt 12500) (api (Some 3) 3 0))) =
       [GaugeSet deploymentRecoveryTimeMs [''prod'', ''api''] (F64_of_int 2500)]
   \<and> ideal (Seconds (Sub (timeNow (callAt 12500)) (timeNow (callAt 10000)))) = 5 / 2"
proof -
  have up: "downtimeStart (newTracker None []) (entityKey (api (Some 3) 0 3)) = None"
    by (simp add: newTracker_def)
  have down: "\<not> isReady (api (Some 3) 0 3)"
    by (simp add: isReady_def api_def desiredReplicas_def)
  have mid: "\<forall>c \<in> set [(api (Some 3) 0 3, callAt 11000)].
      entityKey (fst c) = entityKey (api (Some 3) 0 3) \<longrightarrow> \<not> isReady (fst c)"
    using down by simp
  have ready: "isReady (api (Some 3) 3 0)"
    by (simp add: isReady_def api_def desiredReplicas_def)
  have same: "Namespace (api (Some 3) 3 0) = Namespace (api (Some 3) 0 3)"
    "Name (api (Some 3) 3 0) = Name (api (Some 3) 0 3)"
    by (simp_all add: api_def)
  have mono: "monotonicReading (timeNow (callAt 10000))"
    "monotonicReading (timeNow (callAt 12500))"
    by (simp_all add: monotonicReading_def callAt_def atMs_def maxDuration_def)
  note rt = C3_recovery_round_trip [where Q = nanoOps and r = emptyRegistry
      and ?env1.0 = "callAt 10000" and ?env2.0 = "callAt 12500",
      OF up down mid ready same refl refl prod.collapse refl]
  have ms: "Milliseconds (Sub (timeNow (callAt 12500)) (timeNow (callAt 10000))) = 2500"
    using rt mono by (simp add: callAt_def atMs_def signed_divide_int_def)
  have secs: "ideal (Seconds (Sub (timeNow (callAt 12500)) (timeNow (callAt 10000)))) = 5 / 2"
    using rt mono by (simp add: callAt_def atMs_def)
  from up down ready mono rt ms secs show ?thesis
    by (simp add: api_def)
qed

lemma restart_count_processDeployment:
  "length (filter (\<lambda>e. metricOf e = Some deploymentRestartCount)
      (snd (processDeployment Q t env d))) =
     (if isReady d \<and> downtimeStart t (entityKey d) \<noteq> None then 1 else 0)"
  by (simp add: filter_processDeployment stateMetrics_mem trackStatus_def Let_def
      split: option.splits)

lemma restart_count_processEach:
  "\<forall>c \<in> set calls. entityKey (fst c) = k \<Longrightarrow>
   length (filter (\<lambda>e. metricOf e = Some deploymentRestartCount)
      (snd (processEach Q t calls))) =
     downUp (downtimeStart t k = None) (map (\<lambda>c. isReady (fst c)) calls)"
proof (induction calls arbitrary: t)
  case Nil
  show ?case by simp
next
  case (Cons c calls)
  obtain d env where c: "c = (d, env)" by (cases c)
  from Cons.prems have k: "entityKey d = k" and rest: "\<forall>c \<in> set calls. entityKey (fst c) = k"
    by (simp_all add: c)
  have next_state: "(downtimeStart (fst (processDeployment Q t env d)) k = None) = isReady d"
    by (simp add: downtimeStart_processDeployment k split: option.splits)
  have "length (filter (\<lambda>e. metricOf e = Some deploymentRestartCount)
      (snd (processEach Q (fst (processDeployment Q t env d)) calls))) =
     downUp (isReady d) (map (\<lambda>c. isReady (fst c)) calls)"
    using Cons.IH [OF rest, of "fst (processDeployment Q t env d)"] next_state by simp
  then show ?case
    by (simp add: c processEach_Cons restart_count_processDeployment k del: processEach.simps)
qed

lemma processDeployment_still_down:
  "\<not> isReady d \<Longrightarrow> downtimeStart t (entityKey d) \<noteq> None \<Longrightarrow>
   processDeployment Q t env d =
     (t, gaugeEffects Q t env d @ [GaugeSet deploymentStatus [Namespace d, Name d] (F64_of_int 0)])"
  by (auto simp: processDeployment_def trackStatus_def Let_def)

lemma processDeployment_goes_down:
  "\<not> isReady d \<Longrightarrow> downtimeStart t (entityKey d) = None \<Longrightarrow>
   processDeployment Q t env d =
     (t\<lparr>downtimeStart := (downtimeStart t)(entityKey d \<mapsto> timeNow env)\<rparr>,
      gaugeEffects Q t env d
      @ [GaugeSet deploymentStatus [Namespace d, Name d] (F64_of_int 0),
         GaugeSet deploymentDowntimeStart [Namespace d, Name d] (F64_of_int (Unix (timeNow env))),
         Log (WentDown (timeNow env) (Namespace d) (Name d))])"
  by (auto simp: processDeployment_def trackStatus_def Let_def)

section \<open>Not-ready observations\<close>

text \<open>
  Claim C4. A not-ready observation of an entity without a record adds one record, with the
  time of the call, and writes the downtime-start gauge once, with the Unix seconds of that
  time. A not-ready observation of an entity with a record leaves the tracker as it is and
  writes the always-emitted gauges and the status gauge only, no downtime, recovery or restart
  metric. So for any sequence of observations of one entity the number of restart increments
  is the number of Down\<open>\<rightarrow>\<close>Up transitions of the verdict sequence, however many not-ready
  observations repeat.
\<close>

theorem C4_not_ready_observations:
  "(\<not> isReady d \<and> downtimeStart t (entityKey d) = None \<longrightarrow>
      downtimeStart (fst (processDeployment Q t env d)) =
        (downtimeStart t)(entityKey d \<mapsto> timeNow env)
      \<and> filter (\<lambda>e. metricOf e = Some deploymentDowntimeStart)
          (snd (processDeployment Q t env d)) =
        [GaugeSet deploymentDowntimeStart [Namespace d, Name d]
           (F64_of_int (Unix (timeNow env)))])
   \<and> (\<not> isReady d \<and> downtimeStart t (entityKey d) \<noteq> None \<longrightarrow>
      fst (processDeployment Q t env d) = t
      \<and> snd (processDeployment Q t env d) =
          gaugeEffects Q t env d
          @ [GaugeSet deploymentStatus [Namespace d, Name d] (F64_of_int 0)]
      \<and> (\<forall>e \<in> set (snd (processDeployment Q t env d)).
            metricOf e \<notin> Some ` {deploymentDowntimeStart, deploymentDowntimeDuration,
              deploymentRecoveryTimeMs, deploymentRestartCount}))
   \<and> ((\<forall>c \<in> set calls. Namespace (fst c) = ns \<and> Name (fst c) = name) \<longrightarrow>
      length (filter (\<lambda>e. metricOf e = Some deploymentRestartCount)
         (snd (processEach Q t calls))) =
        downUp (downtimeStart t (ns @ ''/'' @ name) = None) (map (\<lambda>c. isReady (fst c)) calls))"
proof -
  have first: "\<not> isReady d \<and> downtimeStart t (entityKey d) = None \<longrightarrow>
      downtimeStart (fst (processDeployment Q t env d)) =
        (downtimeStart t)(entityKey d \<mapsto> timeNow env)
      \<and> filter (\<lambda>e. metricOf e = Some deploymentDowntimeStart)
          (snd (processDeployment Q t env d)) =
        [GaugeSet deploymentDowntimeStart [Namespace d, Name d]
           (F64_of_int (Unix (timeNow env)))]"
    by (simp add: processDeployment_goes_down filter_gaugeEffects stateMetrics_mem)
  have again: "\<not> isReady d \<and> downtimeStart t (entityKey d) \<noteq> None \<longrightarrow>
      fst (processDeployment Q t env d) = t
      \<and> snd (processDeployment Q t env d) =
          gaugeEffects Q t env d
          @ [GaugeSet deploymentStatus [Namespace d, Name d] (F64_of_int 0)]
      \<and> (\<forall>e \<in> set (snd (processDeployment Q t env d)).
            metricOf e \<notin> Some ` {deploymentDowntimeStart, deploymentDowntimeDuration,
              deploymentRecoveryTimeMs, deploymentRestartCount})"
    using metricOf_gaugeEffects [of _ Q t env d]
    by (auto simp: processDeployment_still_down stateMetrics_def)
  have count: "(\<forall>c \<in> set calls. Namespace (fst c) = ns \<and> Name (fst c) = name) \<longrightarrow>
      length (filter (\<lambda>e. metricOf e = Some deploymentRestartCount)
         (snd (processEach Q t calls))) =
        downUp (downtimeStart t (ns @ ''/'' @ name) = None) (map (\<lambda>c. isReady (fst c)) calls)"
    using restart_count_processEach [of calls "ns @ ''/'' @ name" Q t]
    by (simp add: entityKey_def)
  from first again count show ?thesis
    by blast
qed

theorem C4_not_ready_observations_witness:
  "\<not> isReady (api (Some 3) 0 3)
   \<and> downtimeStart (newTracker None []) (entityKey (api (Some 3) 0 3)) = None
   \<and> downtimeStart (fst (processDeployment nanoOps (newTracker None []) (callAt 10000)
        (api (Some 3) 0 3))) = [''prod/api'' \<mapsto> atMs 10000]
   \<and> downtimeStart (fst (processDeployment nanoOps (newTracker None []) (callAt 10000)
        (api (Some 3) 0 3))) (entityKey (api (Some 3) 0 3)) \<noteq> None
   \<and> fst (processDeployment nanoOps
        (fst (processDeployment nanoOps (newTracker None []) (callAt 10000) (api (Some 3) 0 3)))
        (callAt 11000) (api (Some 3) 0 3)) =
       fst (processDeployment nanoOps (newTracker None []) (callAt 10000) (api (Some 3) 0 3))
   \<and> list_all (\<lambda>c. Namespace (fst c) = ''prod'' \<and> Name (fst c) = ''api'')
        [(api (Some 3) 0 3, callAt 10000), (api (Some 3) 0 3, callAt 11000),
         (api (Some 3) 3 0, callAt 12500), (api (Some 3) 3 0, callAt 13000)]
   \<and> length (filter (\<lambda>e. metricOf e = Some deploymentRestartCount)
        (snd (processEach nanoOps (newTracker None [])
           [(api (Some 3) 0 3, callAt 10000), (api (Some 3) 0 3, callAt 11000),
            (api (Some 3) 3 0, callAt 12500), (api (Some 3) 3 0, callAt 13000)]))) = 1"
proof -
  have down: "\<not> isReady (api (Some 3) 0 3)" and ready: "isReady (api (Some 3) 3 0)"
    by (simp_all add: isReady_def api_def desiredReplicas_def)
  have up: "downtimeStart (newTracker None []) (entityKey (api (Some 3) 0 3)) = None"
    by (simp add: newTracker_def)
  have key: "entityKey (api (Some 3) 0 3) = ''prod/api''"
    by (simp add: entityKey_def api_def)
  have names: "\<forall>c \<in> set [(api (Some 3) 0 3, callAt 10000), (api (Some 3) 0 3, callAt 11000),
          (api (Some 3) 3 0, callAt 12500), (api (Some 3) 3 0, callAt 13000)].
         Namespace (fst c) = ''prod'' \<and> Name (fst c) = ''api''"
    by (simp add: api_def)
  have one: "downtimeStart (fst (processDeployment nanoOps (newTracker None []) (callAt 10000)
        (api (Some 3) 0 3))) = [''prod/api'' \<mapsto> atMs 10000]"
    using C4_not_ready_observations [of "api (Some 3) 0 3" "newTracker None []" nanoOps
        "callAt 10000" "[]" "[]" "[]"] down up
    by (simp add: key newTracker_def callAt_def)
  then have rec: "downtimeStart (fst (processDeployment nanoOps (newTracker None [])
        (callAt 10000) (api (Some 3) 0 3))) (entityKey (api (Some 3) 0 3)) \<noteq> None"
    by (simp add: key)
  have two: "fst (processDeployment nanoOps
        (fst (processDeployment nanoOps (newTracker None []) (callAt 10000) (api (Some 3) 0 3)))
        (callAt 11000) (api (Some 3) 0 3)) =
       fst (processDeployment nanoOps (newTracker None []) (callAt 10000) (api (Some 3) 0 3))"
    using C4_not_ready_observations [of "api (Some 3) 0 3"
        "fst (processDeployment nanoOps (newTracker None []) (callAt 10000) (api (Some 3) 0 3))"
        nanoOps "callAt 11000" "[]" "[]" "[]"] down rec
    by blast
  have count: "length (filter (\<lambda>e. metricOf e = Some deploymentRestartCount)
        (snd (processEach nanoOps (newTracker None [])
           [(api (Some 3) 0 3, callAt 10000), (api (Some 3) 0 3, callAt 11000),
            (api (Some 3) 3 0, callAt 12500), (api (Some 3) 3 0, callAt 13000)]))) = 1"
    using C4_not_ready_observations [of "api (Some 3) 0 3" "newTracker None []" nanoOps
        "callAt 10000" "[(api (Some 3) 0 3, callAt 10000), (api (Some 3) 0 3, callAt 11000),
            (api (Some 3) 3 0, callAt 12500), (api (Some 3) 3 0, callAt 13000)]"
        "''prod''" "''api''"] names down ready
    by (simp add: newTracker_def)
  from down up one rec two names count show ?thesis
    by (simp only: list_all_iff) blast
qed

lemma Sprintf_d_digit:
  "Sprintf_d 0 = ''0''" "Sprintf_d 2 = ''2''" "Sprintf_d 3 = ''3''"
  by code_simp+

lemma filter_metric_Nil:
  "(\<And>e. e \<in> set es \<Longrightarrow> metricOf e \<noteq> Some m) \<Longrightarrow>
     filter (\<lambda>e. metricOf e = Some m) es = []"
  by (simp add: filter_empty_conv)

lemma filter_collectResourceMetrics:
  "m \<notin> resourceMetrics \<Longrightarrow>
     filter (\<lambda>e. metricOf e = Some m) (collectResourceMetrics Q t env ns name) = []"
  by (rule filter_metric_Nil) (auto dest: metricOf_collectResourceMetrics)

lemma filter_conditionEffects:
  "filter (\<lambda>e. metricOf e = Some m) (conditionEffects ns name cs) =
     (if m = deploymentConditionStatus then conditionEffects ns name cs else [])"
  by (auto simp: filter_empty_conv filter_id_conv dest: metricOf_conditionEffects)

lemma metricOf_trackStatus:
  "e \<in> set (snd (trackStatus m now d)) \<Longrightarrow> metricOf e \<in> insert None (Some ` stateMetrics)"
  by (auto simp: trackStatus_def Let_def stateMetrics_def split: if_splits option.splits)

lemma filter_trackStatus:
  "m \<notin> stateMetrics \<Longrightarrow> filter (\<lambda>e. metricOf e = Some m) (snd (trackStatus s now d)) = []"
  by (rule filter_metric_Nil) (auto dest: metricOf_trackStatus)

lemma not_resource:
  "deploymentHeartbeat \<notin> resourceMetrics" "deploymentCreationTime \<notin> resourceMetrics"
  "deploymentGeneration \<notin> resourceMetrics" "deploymentObservedGeneration \<notin> resourceMetrics"
  "deploymentReplicasDesired \<notin> resourceMetrics" "deploymentReplicasReady \<notin> resourceMetrics"
  "deploymentReplicasAvailable \<notin> resourceMetrics"
  "deploymentReplicasUnavailable \<notin> resourceMetrics"
  "deploymentReplicasUpdated \<notin> resourceMetrics" "deploymentAvailabilityRatio \<notin> resourceMetrics"
  "deploymentConditionStatus \<notin> resourceMetrics"
  by (simp_all add: resourceMetrics_def)

lemma not_state:
  "deploymentHeartbeat \<notin> stateMetrics" "deploymentCreationTime \<notin> stateMetrics"
  "deploymentGeneration \<notin> stateMetrics" "deploymentObservedGeneration \<notin> stateMetrics"
  "deploymentReplicasDesired \<notin> stateMetrics" "deploymentReplicasReady \<notin> stateMetrics"
  "deploymentReplicasAvailable \<notin> stateMetrics"
  "deploymentReplicasUnavailable \<notin> stateMetrics"
  "deploymentReplicasUpdated \<notin> stateMetrics" "deploymentAvailabilityRatio \<notin> stateMetrics"
  "deploymentConditionStatus \<notin> stateMetrics"
  by (simp_all add: stateMetrics_def)

lemmas filter_parts = snd_processDeployment gaugeEffects_def Let_def
  filter_collectResourceMetrics filter_conditionEffects filter_trackStatus not_resource not_state
  replicaEffects_def ratioEffects_def

section \<open>What every call writes\<close>

text \<open>
  Claim C6, as amended. Every call writes once each: the heartbeat gauge, the three metadata
  gauges, the ready, available, unavailable and updated replica gauges, and one condition
  gauge for each condition in order, with 1 for the status string \<^verbatim>\<open>"True"\<close>, 0 for
  \<^verbatim>\<open>"False"\<close> and -1 for anything else. The desired-replicas gauge and the
  availability-ratio gauge are written exactly when the desired count is set; the ratio is
  \<open>ready / desired\<close> when the desired count is greater than 0 and 0 otherwise, and its labels
  carry the decimal ready and desired counts.
\<close>

theorem C6_always_emitted:
  "filter (\<lambda>e. metricOf e = Some deploymentHeartbeat) (snd (processDeployment Q t env d)) =
     [GaugeSet deploymentHeartbeat [Namespace d, Name d] (F64_of_int (Unix (timeNow env)))]
   \<and> filter (\<lambda>e. metricOf e = Some deploymentCreationTime) (snd (processDeployment Q t env d)) =
     [GaugeSet deploymentCreationTime [Namespace d, Name d]
        (F64_of_int (Unix (CreationTimestamp d)))]
   \<and> filter (\<lambda>e. metricOf e = Some deploymentGeneration) (snd (processDeployment Q t env d)) =
     [GaugeSet deploymentGeneration [Namespace d, Name d] (F64_of_int (Generation d))]
   \<and> filter (\<lambda>e. metricOf e = Some deploymentObservedGeneration)
       (snd (processDeployment Q t env d)) =
     [GaugeSet deploymentObservedGeneration [Namespace d, Name d]
        (F64_of_int (Status_ObservedGeneration d))]
   \<and> filter (\<lambda>e. metricOf e = Some deploymentReplicasReady) (snd (processDeployment Q t env d)) =
     [GaugeSet deploymentReplicasReady [Namespace d, Name d]
        (F64_of_int (Status_ReadyReplicas d))]
   \<and> filter (\<lambda>e. metricOf e = Some deploymentReplicasAvailable)
       (snd (processDeployment Q t env d)) =
     [GaugeSet deploymentReplicasAvailable [Namespace d, Name d]
        (F64_of_int (Status_AvailableReplicas d))]
   \<and> filter (\<lambda>e. metricOf e = Some deploymentReplicasUnavailable)
       (snd (processDeployment Q t env d)) =
     [GaugeSet deploymentReplicasUnavailable [Namespace d, Name d]
        (F64_of_int (Status_UnavailableReplicas d))]
   \<and> filter (\<lambda>e. metricOf e = Some deploymentReplicasUpdated)
       (snd (processDeployment Q t env d)) =
     [GaugeSet deploymentReplicasUpdated [Namespace d, Name d]
        (F64_of_int (Status_UpdatedReplicas d))]
   \<and> filter (\<lambda>e. metricOf e = Some deploymentConditionStatus)
       (snd (processDeployment Q t env d)) =
     map (\<lambda>c. GaugeSet deploymentConditionStatus [Namespace d, Name d, fst c, snd c]
                (if snd c = ''True'' then F64_of_int 1
                 else if snd c = ''False'' then F64_of_int 0 else F64_of_int (- 1)))
       (Status_Conditions d)
   \<and> filter (\<lambda>e. metricOf e = Some deploymentReplicasDesired)
       (snd (processDeployment Q t env d)) =
     (case Spec_Replicas d of
        None \<Rightarrow> []
      | Some r \<Rightarrow> [GaugeSet deploymentReplicasDesired [Namespace d, Name d] (F64_of_int r)])
   \<and> filter (\<lambda>e. metricOf e = Some deploymentAvailabilityRatio)
       (snd (processDeployment Q t env d)) =
     (case Spec_Replicas d of
        None \<Rightarrow> []
      | Some r \<Rightarrow>
          [GaugeSet deploymentAvailabilityRatio
             [Namespace d, Name d, Sprintf_d (Status_ReadyReplicas d), Sprintf_d r]
             (if 0 < r then F64_div (F64_of_int (Status_ReadyReplicas d)) (F64_of_int r)
              else F64_of_int 0)])"
proof -
  have heartbeat: "filter (\<lambda>e. metricOf e = Some deploymentHeartbeat)
      (snd (processDeployment Q t env d)) =
     [GaugeSet deploymentHeartbeat [Namespace d, Name d] (F64_of_int (Unix (timeNow env)))]"
    by (simp add: filter_parts split: option.splits)
  have creation: "filter (\<lambda>e. metricOf e = Some deploymentCreationTime)
      (snd (processDeployment Q t env d)) =
     [GaugeSet deploymentCreationTime [Namespace d, Name d]
        (F64_of_int (Unix (CreationTimestamp d)))]"
    by (simp add: filter_parts split: option.splits)
  have generation: "filter (\<lambda>e. metricOf e = Some deploymentGeneration)
      (snd (processDeployment Q t env d)) =
     [GaugeSet deploymentGeneration [Namespace d, Name d] (F64_of_int (Generation d))]"
    by (simp add: filter_parts split: option.splits)
  have observed: "filter (\<lambda>e. metricOf e = Some deploymentObservedGeneration)
       (snd (processDeployment Q t env d)) =
     [GaugeSet deploymentObservedGeneration [Namespace d, Name d]
        (F64_of_int (Status_ObservedGeneration d))]"
    by (simp add: filter_parts split: option.splits)
  have ready: "filter (\<lambda>e. metricOf e = Some deploymentReplicasReady)
      (snd (processDeployment Q t env d)) =
     [GaugeSet deploymentReplicasReady [Namespace d, Name d]
        (F64_of_int (Status_ReadyReplicas d))]"
    by (simp add: filter_parts split: option.splits)
  have available: "filter (\<lambda>e. metricOf e = Some deploymentReplicasAvailable)
       (snd (processDeployment Q t env d)) =
     [GaugeSet deploymentReplicasAvailable [Namespace d, Name d]
        (F64_of_int (Status_AvailableReplicas d))]"
    by (simp add: filter_parts split: option.splits)
  have unavailable: "filter (\<lambda>e. metricOf e = Some deploymentReplicasUnavailable)
       (snd (processDeployment Q t env d)) =
     [GaugeSet deploymentReplicasUnavailable [Namespace d, Name d]
        (F64_of_int (Status_UnavailableReplicas d))]"
    by (simp add: filter_parts split: option.splits)
  have updated: "filter (\<lambda>e. metricOf e = Some deploymentReplicasUpdated)
       (snd (processDeployment Q t env d)) =
     [GaugeSet deploymentReplicasUpdated [Namespace d, Name d]
        (F64_of_int (Status_UpdatedReplicas d))]"
    by (simp add: filter_parts split: option.splits)
  have conditions: "filter (\<lambda>e. metricOf e = Some deploymentConditionStatus)
       (snd (processDeployment Q t env d)) =
     map (\<lambda>c. GaugeSet deploymentConditionStatus [Namespace d, Name d, fst c, snd c]
                (if snd c = ''True'' then F64_of_int 1
                 else if snd c = ''False'' then F64_of_int 0 else F64_of_int (- 1)))
       (Status_Conditions d)"
    by (simp add: filter_parts conditionEffects_def statusValue_def case_prod_beta
        split: option.splits)
  have desired: "filter (\<lambda>e. metricOf e = Some deploymentReplicasDesired)
       (snd (processDeployment Q t env d)) =
     (case Spec_Replicas d of
        None \<Rightarrow> []
      | Some r \<Rightarrow> [GaugeSet deploymentReplicasDesired [Namespace d, Name d] (F64_of_int r)])"
    by (simp add: filter_parts split: option.splits)
  have ratio: "filter (\<lambda>e. metricOf e = Some deploymentAvailabilityRatio)
       (snd (processDeployment Q t env d)) =
     (case Spec_Replicas d of
        None \<Rightarrow> []
      | Some r \<Rightarrow>
          [GaugeSet deploymentAvailabilityRatio
             [Namespace d, Name d, Sprintf_d (Status_ReadyReplicas d), Sprintf_d r]
             (if 0 < r then F64_div (F64_of_int (Status_ReadyReplicas d)) (F64_of_int r)
              else F64_of_int 0)])"
    by (simp add: filter_parts split: option.splits)
  from heartbeat creation generation observed ready available unavailable updated conditions
    desired ratio
  show ?thesis
    by (intro conjI)
qed

theorem C6_always_emitted_witness:
  "filter (\<lambda>e. metricOf e = Some deploymentAvailabilityRatio)
     (snd (processDeployment nanoOps (newTracker None []) (callAt 0) (api (Some 3) 2 1))) =
     [GaugeSet deploymentAvailabilityRatio [''prod'', ''api'', ''2'', ''3'']
        (F64_div (F64_of_int 2) (F64_of_int 3))]
   \<and> filter (\<lambda>e. metricOf e = Some deploymentAvailabilityRatio)
       (snd (processDeployment nanoOps (newTracker None []) (callAt 0) (api (Some 0) 0 0))) =
     [GaugeSet deploymentAvailabilityRatio [''prod'', ''api'', ''0'', ''0''] (F64_of_int 0)]
   \<and> filter (\<lambda>e. metricOf e = Some deploymentReplicasDesired)
       (snd (processDeployment nanoOps (newTracker None []) (callAt 0) (api None 0 0))) = []
   \<and> filter (\<lambda>e. metricOf e = Some deploymentConditionStatus)
       (snd (processDeployment nanoOps (newTracker None []) (callAt 0) (api None 0 0))) =
     [GaugeSet deploymentConditionStatus [''prod'', ''api'', ''Available'', ''True'']
        (F64_of_int 1),
      GaugeSet deploymentConditionStatus [''prod'', ''api'', ''Progressing'', ''Unknown'']
        (F64_of_int (- 1))]"
  using C6_always_emitted [of nanoOps "newTracker None []" "callAt 0" "api (Some 3) 2 1"]
    C6_always_emitted [of nanoOps "newTracker None []" "callAt 0" "api (Some 0) 0 0"]
    C6_always_emitted [of nanoOps "newTracker None []" "callAt 0" "api None 0 0"]
  by (simp add: api_def Sprintf_d_digit)

text \<open>
  Claim C6 as stated fails: for a deployment whose desired count is unset, no effect of the
  call writes the desired-replicas gauge or the availability-ratio gauge.
\<close>

theorem C6_always_emitted_counterexample:
  "Some deploymentReplicasDesired \<notin>
     set (map metricOf (snd (processDeployment nanoOps (newTracker None []) (callAt 0)
       (api None 0 0))))
   \<and> Some deploymentAvailabilityRatio \<notin>
     set (map metricOf (snd (processDeployment nanoOps (newTracker None []) (callAt 0)
       (api None 0 0))))"
  by code_simp

lemma resource_not_state: "m \<in> resourceMetrics \<Longrightarrow> m \<notin> stateMetrics"
  by (auto simp: resourceMetrics_def stateMetrics_def)

lemma filter_resource_processDeployment:
  assumes "m \<in> resourceMetrics"
  shows "filter (\<lambda>e. metricOf e = Some m) (snd (processDeployment Q t env d)) =
     filter (\<lambda>e. metricOf e = Some m) (collectResourceMetrics Q t env (Namespace d) (Name d))"
proof -
  have "filter (\<lambda>e. metricOf e = Some m) (replicaEffects d) = []"
    using assms by (intro filter_metric_Nil) (auto simp: resourceMetrics_def dest!: metricOf_replicaEffects)
  moreover have "filter (\<lambda>e. metricOf e = Some m) (ratioEffects d) = []"
    using assms by (intro filter_metric_Nil) (auto simp: resourceMetrics_def dest!: metricOf_ratioEffects)
  moreover have "m \<noteq> deploymentConditionStatus" "m \<noteq> deploymentHeartbeat"
    "m \<noteq> deploymentCreationTime" "m \<noteq> deploymentGeneration" "m \<noteq> deploymentObservedGeneration"
    using assms by (auto simp: resourceMetrics_def)
  ultimately show ?thesis
    using assms
    by (simp add: snd_processDeployment gaugeEffects_def Let_def filter_conditionEffects
        filter_trackStatus resource_not_state)
qed

lemma filter_cpu_percent:
  "filter (\<lambda>e. metricOf e = Some deploymentCPUUsagePercent)
     (collectResourceMetrics Q t env ns name) =
   (case podList env of
      Inl err \<Rightarrow> []
    | Inr pods \<Rightarrow>
        (case metricsClient t of
           None \<Rightarrow> []
         | Some c \<Rightarrow>
             (case podMetricsList env of
                Inl err \<Rightarrow> []
              | Inr pms \<Rightarrow>
                  if 0 < MilliValue Q (totalCPURequest (sumPods Q pods))
                  then [GaugeSet deploymentCPUUsagePercent [ns, name]
                          (percent (fst (sumUsage Q pms))
                             (MilliValue Q (totalCPURequest (sumPods Q pods))))]
                  else [])))"
  by (simp add: collectResourceMetrics_def usageEffects_def Let_def
      split: sum.splits option.splits prod.splits)

lemma filter_memory_percent:
  "filter (\<lambda>e. metricOf e = Some deploymentMemoryUsagePercent)
     (collectResourceMetrics Q t env ns name) =
   (case podList env of
      Inl err \<Rightarrow> []
    | Inr pods \<Rightarrow>
        (case metricsClient t of
           None \<Rightarrow> []
         | Some c \<Rightarrow>
             (case podMetricsList env of
                Inl err \<Rightarrow> []
              | Inr pms \<Rightarrow>
                  if 0 < Value Q (totalMemoryRequest (sumPods Q pods))
                  then [GaugeSet deploymentMemoryUsagePercent [ns, name]
                          (percent (snd (sumUsage Q pms))
                             (Value Q (totalMemoryRequest (sumPods Q pods))))]
                  else [])))"
  by (simp add: collectResourceMetrics_def usageEffects_def Let_def
      split: sum.splits option.splits prod.splits)

lemma percent_mem:
  "deploymentCPUUsagePercent \<in> resourceMetrics" "deploymentMemoryUsagePercent \<in> resourceMetrics"
  by (simp_all add: resourceMetrics_def)

lemma registry_unwritten:
  "filter (\<lambda>e. metricOf e = Some m) es = [] \<Longrightarrow>
   gauges (apply_effects r es) (m, ls) = gauges r (m, ls)"
  by (rule apply_effects_other [THEN conjunct1]) (simp add: filter_empty_conv)

section \<open>Usage as a percentage of the request\<close>

text \<open>
  Claim C9. A call writes the CPU percentage gauge only when the pod list succeeded, there is
  a metrics client, the pod-metrics list succeeded and the milli-value of the summed CPU
  requests is greater than 0, and then its value is \<open>percent\<close> of the usage and that
  milli-value; likewise for memory with the value of the summed memory requests. With a
  request total that is not positive nothing is written to the percentage gauge and the
  registry keeps what it held. The only division in a percentage is the one of \<open>percent\<close>,
  by the converted request total.
\<close>

theorem C9_percent_guarded:
  "filter (\<lambda>e. metricOf e = Some deploymentCPUUsagePercent)
     (snd (processDeployment Q t env d)) =
   (case podList env of
      Inl err \<Rightarrow> []
    | Inr pods \<Rightarrow>
        (case metricsClient t of
           None \<Rightarrow> []
         | Some c \<Rightarrow>
             (case podMetricsList env of
                Inl err \<Rightarrow> []
              | Inr pms \<Rightarrow>
                  if 0 < MilliValue Q (totalCPURequest (sumPods Q pods))
                  then [GaugeSet deploymentCPUUsagePercent [Namespace d, Name d]
                          (percent (fst (sumUsage Q pms))
                             (MilliValue Q (totalCPURequest (sumPods Q pods))))]
                  else [])))
   \<and> filter (\<lambda>e. metricOf e = Some deploymentMemoryUsagePercent)
       (snd (processDeployment Q t env d)) =
     (case podList env of
        Inl err \<Rightarrow> []
      | Inr pods \<Rightarrow>
          (case metricsClient t of
             None \<Rightarrow> []
           | Some c \<Rightarrow>
               (case podMetricsList env of
                  Inl err \<Rightarrow> []
                | Inr pms \<Rightarrow>
                    if 0 < Value Q (totalMemoryRequest (sumPods Q pods))
                    then [GaugeSet deploymentMemoryUsagePercent [Namespace d, Name d]
                            (percent (snd (sumUsage Q pms))
                               (Value Q (totalMemoryRequest (sumPods Q pods))))]
                    else [])))
   \<and> (podList env = Inr pods \<and> MilliValue Q (totalCPURequest (sumPods Q pods)) \<le> 0 \<longrightarrow>
        filter (\<lambda>e. metricOf e = Some deploymentCPUUsagePercent)
          (snd (processDeployment Q t env d)) = []
        \<and> gauges (apply_effects r (snd (processDeployment Q t env d)))
            (deploymentCPUUsagePercent, ls) = gauges r (deploymentCPUUsagePercent, ls))
   \<and> (podList env = Inr pods \<and> Value Q (totalMemoryRequest (sumPods Q pods)) \<le> 0 \<longrightarrow>
        filter (\<lambda>e. metricOf e = Some deploymentMemoryUsagePercent)
          (snd (processDeployment Q t env d)) = []
        \<and> gauges (apply_effects r (snd (processDeployment Q t env d)))
            (deploymentMemoryUsagePercent, ls) = gauges r (deploymentMemoryUsagePercent, ls))
   \<and> percent usage request =
       F64_mul (F64_div (F64_of_int usage) (F64_of_int request)) (F64_of_int 100)"
proof -
  note cpu = filter_resource_processDeployment [OF percent_mem(1), of Q t env d,
      unfolded filter_cpu_percent]
  note mem = filter_resource_processDeployment [OF percent_mem(2), of Q t env d,
      unfolded filter_memory_percent]
  have cpu0: "podList env = Inr pods \<and> MilliValue Q (totalCPURequest (sumPods Q pods)) \<le> 0 \<longrightarrow>
        filter (\<lambda>e. metricOf e = Some deploymentCPUUsagePercent)
          (snd (processDeployment Q t env d)) = []
        \<and> gauges (apply_effects r (snd (processDeployment Q t env d)))
            (deploymentCPUUsagePercent, ls) = gauges r (deploymentCPUUsagePercent, ls)"
  proof (intro impI)
    assume "podList env = Inr pods \<and> MilliValue Q (totalCPURequest (sumPods Q pods)) \<le> 0"
    then have "filter (\<lambda>e. metricOf e = Some deploymentCPUUsagePercent)
          (snd (processDeployment Q t env d)) = []"
      by (simp add: cpu split: option.splits sum.splits)
    then show "filter (\<lambda>e. metricOf e = Some deploymentCPUUsagePercent)
          (snd (processDeployment Q t env d)) = []
        \<and> gauges (apply_effects r (snd (processDeployment Q t env d)))
            (deploymentCPUUsagePercent, ls) = gauges r (deploymentCPUUsagePercent, ls)"
      by (simp add: registry_unwritten)
  qed
  have mem0: "podList env = Inr pods \<and> Value Q (totalMemoryRequest (sumPods Q pods)) \<le> 0 \<longrightarrow>
        filter (\<lambda>e. metricOf e = Some deploymentMemoryUsagePercent)
          (snd (processDeployment Q t env d)) = []
        \<and> gauges (apply_effects r (snd (processDeployment Q t env d)))
            (deploymentMemoryUsagePercent, ls) = gauges r (deploymentMemoryUsagePercent, ls)"
  proof (intro impI)
    assume "podList env = Inr pods \<and> Value Q (totalMemoryRequest (sumPods Q pods)) \<le> 0"
    then have "filter (\<lambda>e. metricOf e = Some deploymentMemoryUsagePercent)
          (snd (processDeployment Q t env d)) = []"
      by (simp add: mem split: option.splits sum.splits)
    then show "filter (\<lambda>e. metricOf e = Some deploymentMemoryUsagePercent)
          (snd (processDeployment Q t env d)) = []
        \<and> gauges (apply_effects r (snd (processDeployment Q t env d)))
            (deploymentMemoryUsagePercent, ls) = gauges r (deploymentMemoryUsagePercent, ls)"
      by (simp add: registry_unwritten)
  qed
  have pct: "percent usage request =
       F64_mul (F64_div (F64_of_int usage) (F64_of_int request)) (F64_of_int 100)"
    by (simp add: percent_def)
  from cpu mem cpu0 mem0 pct show ?thesis
    by (intro conjI)
qed

theorem C9_percent_guarded_witness:
  "podList ((callAt 0)\<lparr>podList := Inr [[\<lparr>Requests = Map.empty, Limits = Map.empty\<rparr>]]\<rparr>) =
     Inr [[\<lparr>Requests = Map.empty, Limits = Map.empty\<rparr>]]
   \<and> MilliValue nanoOps (totalCPURequest (sumPods nanoOps
        [[\<lparr>Requests = Map.empty, Limits = Map.empty\<rparr>]])) \<le> 0
   \<and> Value nanoOps (totalMemoryRequest (sumPods nanoOps
        [[\<lparr>Requests = Map.empty, Limits = Map.empty\<rparr>]])) \<le> 0
   \<and> filter (\<lambda>e. metricOf e = Some deploymentCPUUsagePercent)
        (snd (processDeployment nanoOps (newTracker (Some ()) [])
           ((callAt 0)\<lparr>podList := Inr [[\<lparr>Requests = Map.empty, Limits = Map.empty\<rparr>]]\<rparr>)
           (api (Some 3) 3 0))) = []
   \<and> filter (\<lambda>e. metricOf e = Some deploymentMemoryUsagePercent)
        (snd (processDeployment nanoOps (newTracker (Some ()) [])
           ((callAt 0)\<lparr>podList := Inr [[\<lparr>Requests = Map.empty, Limits = Map.empty\<rparr>]]\<rparr>)
           (api (Some 3) 3 0))) = []
   \<and> filter (\<lambda>e. metricOf e = Some deploymentCPUUsagePercent)
        (snd (processDeployment nanoOps (newTracker (Some ()) []) (callAt 0) (api (Some 3) 3 0))) =
       [GaugeSet deploymentCPUUsagePercent [''prod'', ''api''] (percent 100 250)]"
proof -
  have zero: "MilliValue nanoOps (totalCPURequest (sumPods nanoOps
        [[\<lparr>Requests = Map.empty, Limits = Map.empty\<rparr>]])) \<le> 0"
    "Value nanoOps (totalMemoryRequest (sumPods nanoOps
        [[\<lparr>Requests = Map.empty, Limits = Map.empty\<rparr>]])) \<le> 0"
    by (simp_all add: sumPods_def addContainer_def index_def nanoOps_def awayFromZero_def)
  have pos: "MilliValue nanoOps (totalCPURequest (sumPods nanoOps
        [[\<lparr>Requests = [ResourceCPU \<mapsto> 250000000, ResourceMemory \<mapsto> 67108864000000000],
            Limits = Map.empty\<rparr>]])) = 250"
    by (simp add: sumPods_def addContainer_def index_def nanoOps_def awayFromZero_def
        ResourceCPU_def ResourceMemory_def)
  have use: "fst (sumUsage nanoOps [[\<lparr>Usage = [ResourceCPU \<mapsto> 100000000,
                                        ResourceMemory \<mapsto> 33554432000000000]\<rparr>]]) = 100"
    by (simp add: sumUsage_def addUsage_def index_def nanoOps_def awayFromZero_def
        ResourceCPU_def ResourceMemory_def wrap64_def)
  show ?thesis
    using zero
      C9_percent_guarded [of nanoOps "newTracker (Some ()) []"
        "(callAt 0)\<lparr>podList := Inr [[\<lparr>Requests = Map.empty, Limits = Map.empty\<rparr>]]\<rparr>"
        "api (Some 3) 3 0" "[[\<lparr>Requests = Map.empty, Limits = Map.empty\<rparr>]]" emptyRegistry]
      C9_percent_guarded [of nanoOps "newTracker (Some ()) []" "callAt 0" "api (Some 3) 3 0"]
    by (simp add: callAt_def newTracker_def api_def pos use)
qed

lemma rangeResultChan_Cons:
  "rangeResultChan Q t ((event, env) # rest) =
     (if Type event = Error then (t, [Log WatchError])
      else (case Object event of
              OtherObject \<Rightarrow> rangeResultChan Q t rest
            | DeploymentObject d \<Rightarrow>
                (fst (rangeResultChan Q (fst (processDeployment Q t env d)) rest),
                 snd (processDeployment Q t env d)
                   @ snd (rangeResultChan Q (fst (processDeployment Q t env d)) rest))))"
  by (simp split: prod.splits Object.splits)

lemma watchBody_Inr:
  "watchBody Q t (Inr events) =
     (fst (rangeResultChan Q t events),
      [Log StartedWatching] @ snd (rangeResultChan Q t events)
        @ [Log WatcherStopped, Sleep (5 * Second)])"
  by (simp add: watchBody_def split: prod.splits)

lemma watchBody_Inl:
  "watchBody Q t (Inl err) = (t, [Log (ErrorCreatingWatcher err), Sleep (5 * Second)])"
  by (simp add: watchBody_def)

lemma watchIterations_Cons:
  "watchIterations Q t (w # ws) =
     (fst (watchIterations Q (fst (watchBody Q t w)) ws),
      snd (watchBody Q t w) @ snd (watchIterations Q (fst (watchBody Q t w)) ws))"
  by (simp split: prod.splits)

lemma rangeResultChan_error:
  "Type event = Error \<Longrightarrow> \<forall>c \<in> set before. Type (fst c) \<noteq> Error \<Longrightarrow>
   rangeResultChan Q t (before @ (event, env) # after) =
     (fst (rangeResultChan Q t before), snd (rangeResultChan Q t before) @ [Log WatchError])"
proof (induction before arbitrary: t)
  case Nil
  then show ?case by simp
next
  case (Cons c before)
  obtain ev en where c: "c = (ev, en)" by (cases c)
  from Cons show ?case
    by (cases "Object ev") (simp_all add: c rangeResultChan_Cons del: rangeResultChan.simps)
qed

lemma no_sleep_processDeployment:
  "filter isSleep (snd (processDeployment Q t env d)) = []"
proof -
  have "\<not> isSleep e" if mem: "e \<in> set (snd (processDeployment Q t env d))" for e
  proof
    assume "isSleep e"
    then obtain dur where "e = Sleep dur"
      by (cases e) auto
    with mem show False
      unfolding snd_processDeployment gaugeEffects_def Let_def set_append Un_iff
      apply (elim disjE)
      apply (auto simp: trackStatus_def Let_def collectResourceMetrics_def
          dest!: metricOf_replicaEffects metricOf_ratioEffects metricOf_conditionEffects
            metricOf_usageEffects
          split: if_splits option.splits sum.splits)
      done
  qed
  then show ?thesis
    by (simp add: filter_empty_conv)
qed

lemma no_sleep_rangeResultChan:
  "filter isSleep (snd (rangeResultChan Q t events)) = []"
proof (induction events arbitrary: t)
  case Nil
  show ?case by simp
next
  case (Cons c events)
  obtain ev en where c: "c = (ev, en)" by (cases c)
  show ?case
    by (cases "Object ev")
      (simp_all add: c rangeResultChan_Cons Cons.IH no_sleep_processDeployment
        del: rangeResultChan.simps)
qed

lemma sleeps_watchBody:
  "filter isSleep (snd (watchBody Q t w)) = [Sleep (5 * Second)]"
  by (cases w) (simp_all add: watchBody_Inl watchBody_Inr no_sleep_rangeResultChan)

lemma sleeps_watchIterations:
  "filter isSleep (snd (watchIterations Q t ws)) = replicate (length ws) (Sleep (5 * Second))"
proof (induction ws arbitrary: t)
  case Nil
  show ?case by simp
next
  case (Cons w ws)
  show ?case
    by (simp add: watchIterations_Cons sleeps_watchBody Cons.IH del: watchIterations.simps)
qed



lemma never_returns: "\<not> returnsAfter n (watchDeployments Q t ws)"
proof (induction n arbitrary: t ws)
  case 0
  show ?case
    by (subst watchDeployments.code) simp
next
  case (Suc n)
  show ?case
    by (subst watchDeployments.code) (simp add: Suc.IH)
qed

lemma firstIterations_watchDeployments:
  "firstIterations (Suc n) (watchDeployments Q t ws) =
     snd (watchBody Q t (shd ws))
       # firstIterations n (watchDeployments Q (fst (watchBody Q t (shd ws))) (stl ws))"
  by (subst watchDeployments.code) simp

lemma afterIterations_watchDeployments:
  "afterIterations (Suc n) (watchDeployments Q t ws) =
     afterIterations n (watchDeployments Q (fst (watchBody Q t (shd ws))) (stl ws))"
  by (subst watchDeployments.code) simp

lemma length_firstIterations: "length (firstIterations n (watchDeployments Q t ws)) = n"
  by (induction n arbitrary: t ws)
    (simp_all add: firstIterations_watchDeployments del: firstIterations.simps(2))

lemma concat_firstIterations:
  "concat (firstIterations n (watchDeployments Q t ws)) = snd (watchIterations Q t (stake n ws))"
  by (induction n arbitrary: t ws)
    (simp_all add: firstIterations_watchDeployments watchIterations_Cons
      del: firstIterations.simps(2) watchIterations.simps(2))

lemma afterIterations_watch:
  "afterIterations n (watchDeployments Q t ws) =
     watchDeployments Q (fst (watchIterations Q t (stake n ws))) (sdrop n ws)"
  by (induction n arbitrary: t ws)
    (simp_all add: afterIterations_watchDeployments watchIterations_Cons
      del: afterIterations.simps(2) watchIterations.simps(2))

lemma sleep_each_iteration:
  "map (filter isSleep) (firstIterations n (watchDeployments Q t ws)) =
     replicate n [Sleep (5 * Second)]"
  by (induction n arbitrary: t ws)
    (simp_all add: firstIterations_watchDeployments sleeps_watchBody
      del: firstIterations.simps(2))

lemma last_watchBody: "last (snd (watchBody Q t w)) = Sleep (5 * Second)"
  by (cases w) (simp_all add: watchBody_Inl watchBody_Inr)

lemma last_each_iteration:
  "map last (firstIterations n (watchDeployments Q t ws)) = replicate n (Sleep (5 * Second))"
  by (induction n arbitrary: t ws)
    (simp_all add: firstIterations_watchDeployments last_watchBody
      del: firstIterations.simps(2))

lemma watchDeployments_open_failure:
  "shd ws = Inl err \<Longrightarrow>
   watchDeployments Q t ws =
     Iterated [Log (ErrorCreatingWatcher err), Sleep (5 * Second)]
       (watchDeployments Q t (stl ws))"
  by (subst watchDeployments.code) (simp add: watchBody_Inl)

lemma watchDeployments_stream_end:
  "shd ws = Inr events \<Longrightarrow>
   watchDeployments Q t ws =
     Iterated ([Log StartedWatching] @ snd (rangeResultChan Q t events)
                 @ [Log WatcherStopped, Sleep (5 * Second)])
       (watchDeployments Q (fst (rangeResultChan Q t events)) (stl ws))"
  by (subst watchDeployments.code) (simp add: watchBody_Inr)

section \<open>The watch feeder\<close>

text \<open>
  Claim C7. A run of \<open>watchDeployments\<close> returns after no number of iterations, for any
  tracker and any stream of \<^verbatim>\<open>Watch\<close> outcomes: it completes \<open>n\<close> iterations for every \<open>n\<close>,
  their effects are those of the loop body on the first \<open>n\<close> outcomes, and it goes on as
  \<open>watchDeployments\<close> on the tracker they leave and the outcomes that remain. Every
  iteration sleeps exactly once, as the last thing it does, and always 5 seconds
  (\<open>5 * 10\<^sup>9\<close> nanoseconds), whatever came before. When the \<^verbatim>\<open>Watch\<close> call fails the
  iteration logs the error, sleeps and the run goes on with the tracker as it was. When the
  call succeeds the iteration runs the loop over the events and then, however that loop
  ended, logs that the watcher stopped, sleeps and the run goes on. The loop over the events
  stops at the first error event: the events behind it are not processed. The loop over the
  events never sleeps.
\<close>

theorem C7_watch_never_terminates:
  "\<not> returnsAfter n (watchDeployments Q t ws)
   \<and> length (firstIterations n (watchDeployments Q t ws)) = n
   \<and> concat (firstIterations n (watchDeployments Q t ws)) =
       snd (watchIterations Q t (stake n ws))
   \<and> afterIterations n (watchDeployments Q t ws) =
       watchDeployments Q (fst (watchIterations Q t (stake n ws))) (sdrop n ws)
   \<and> map (filter isSleep) (firstIterations n (watchDeployments Q t ws)) =
       replicate n [Sleep (5 * Second)]
   \<and> map last (firstIterations n (watchDeployments Q t ws)) =
       replicate n (Sleep (5 * Second))
   \<and> (shd ws = Inl err \<longrightarrow>
        watchDeployments Q t ws =
          Iterated [Log (ErrorCreatingWatcher err), Sleep (5 * Second)]
            (watchDeployments Q t (stl ws)))
   \<and> (shd ws = Inr events \<longrightarrow>
        watchDeployments Q t ws =
          Iterated ([Log StartedWatching] @ snd (rangeResultChan Q t events)
                      @ [Log WatcherStopped, Sleep (5 * Second)])
            (watchDeployments Q (fst (rangeResultChan Q t events)) (stl ws)))
   \<and> watchBody Q t (Inl err) = (t, [Log (ErrorCreatingWatcher err), Sleep (5 * Second)])
   \<and> watchBody Q t (Inr events) =
       (fst (rangeResultChan Q t events),
        [Log StartedWatching] @ snd (rangeResultChan Q t events)
          @ [Log WatcherStopped, Sleep (5 * Second)])
   \<and> (Type event = Error \<and> (\<forall>c \<in> set before. Type (fst c) \<noteq> Error) \<longrightarrow>
        rangeResultChan Q t (before @ (event, env) # after) =
          (fst (rangeResultChan Q t before),
           snd (rangeResultChan Q t before) @ [Log WatchError]))
   \<and> filter isSleep (snd (rangeResultChan Q t events)) = []
   \<and> filter isSleep (snd (watchIterations Q t attempts)) =
       replicate (length attempts) (Sleep (5 * Second))
   \<and> 5 * Second = 5000000000"
proof -
  have failure: "shd ws = Inl err \<longrightarrow>
        watchDeployments Q t ws =
          Iterated [Log (ErrorCreatingWatcher err), Sleep (5 * Second)]
            (watchDeployments Q t (stl ws))"
    using watchDeployments_open_failure [of ws err Q t] by blast
  have ended: "shd ws = Inr events \<longrightarrow>
        watchDeployments Q t ws =
          Iterated ([Log StartedWatching] @ snd (rangeResultChan Q t events)
                      @ [Log WatcherStopped, Sleep (5 * Second)])
            (watchDeployments Q (fst (rangeResultChan Q t events)) (stl ws))"
    using watchDeployments_stream_end [of ws events Q t] by blast
  have err: "Type event = Error \<and> (\<forall>c \<in> set before. Type (fst c) \<noteq> Error) \<longrightarrow>
        rangeResultChan Q t (before @ (event, env) # after) =
          (fst (rangeResultChan Q t before),
           snd (rangeResultChan Q t before) @ [Log WatchError])"
    using rangeResultChan_error [of event before Q t env after] by blast
  have five: "5 * Second = 5000000000"
    by (simp add: Second_def)
  from never_returns [of n Q t ws] length_firstIterations [of n Q t ws]
    concat_firstIterations [of n Q t ws] afterIterations_watch [of n Q t ws]
    sleep_each_iteration [of n Q t ws] last_each_iteration [of n Q t ws] failure ended
    watchBody_Inl [of Q t err] watchBody_Inr [of Q t events] err
    no_sleep_rangeResultChan [of Q t events] sleeps_watchIterations [of Q t attempts] five
  show ?thesis
    by (intro conjI)
qed

theorem C7_watch_never_terminates_witness:
  "shd (Inl ''refused'' ## sconst (Inr [])) = Inl ''refused''
   \<and> shd (sconst (Inr [])) = Inr []
   \<and> Type \<lparr>Type = Error, Object = OtherObject\<rparr> = Error
   \<and> firstIterations 2 (watchDeployments nanoOps (newTracker None [])
        (Inl ''refused'' ## sconst (Inr []))) =
       [[Log (ErrorCreatingWatcher ''refused''), Sleep 5000000000],
        [Log StartedWatching, Log WatcherStopped, Sleep 5000000000]]
   \<and> rangeResultChan nanoOps (newTracker None [])
        ([(\<lparr>Type = Bookmark, Object = OtherObject\<rparr>, callAt 0)]
         @ (\<lparr>Type = Error, Object = OtherObject\<rparr>, callAt 1)
         # [(\<lparr>Type = Modified, Object = DeploymentObject (api (Some 3) 3 0)\<rparr>, callAt 2)]) =
       (newTracker None [], [Log WatchError])
   \<and> filter isSleep (snd (watchIterations nanoOps (newTracker None [])
        [Inl ''refused'', Inr [], Inl ''refused''])) =
       [Sleep 5000000000, Sleep 5000000000, Sleep 5000000000]"
proof -
  note first = C7_watch_never_terminates [of 2 nanoOps "newTracker None []" "Inl ''refused'' ## sconst (Inr [])"
      "''refused''" "[]" "\<lparr>Type = Error, Object = OtherObject\<rparr>"
      "[(\<lparr>Type = Bookmark, Object = OtherObject\<rparr>, callAt 0)]" "callAt 1"
      "[(\<lparr>Type = Modified, Object = DeploymentObject (api (Some 3) 3 0)\<rparr>, callAt 2)]"
      "[Inl ''refused'', Inr [], Inl ''refused'']"]
  note second = C7_watch_never_terminates [of 1 nanoOps "newTracker None []" "sconst (Inr [])" "''refused''" "[]"
      "\<lparr>Type = Error, Object = OtherObject\<rparr>" "[]" "callAt 1" "[]" "[]"]
  have one: "watchDeployments nanoOps (newTracker None []) (Inl ''refused'' ## sconst (Inr [])) =
      Iterated [Log (ErrorCreatingWatcher ''refused''), Sleep (5 * Second)]
        (watchDeployments nanoOps (newTracker None []) (sconst (Inr [])))"
    using first by simp
  have two: "watchDeployments nanoOps (newTracker None []) (sconst (Inr [])) =
      Iterated [Log StartedWatching, Log WatcherStopped, Sleep (5 * Second)]
        (watchDeployments nanoOps (newTracker None []) (sconst (Inr [])))"
    using second by simp
  have runs: "firstIterations 2 (watchDeployments nanoOps (newTracker None [])
        (Inl ''refused'' ## sconst (Inr []))) =
       [[Log (ErrorCreatingWatcher ''refused''), Sleep 5000000000],
        [Log StartedWatching, Log WatcherStopped, Sleep 5000000000]]"
    by (subst one, simp add: numeral_2_eq_2, subst two, simp add: Second_def)
  have stop: "rangeResultChan nanoOps (newTracker None [])
        ([(\<lparr>Type = Bookmark, Object = OtherObject\<rparr>, callAt 0)]
         @ (\<lparr>Type = Error, Object = OtherObject\<rparr>, callAt 1)
         # [(\<lparr>Type = Modified, Object = DeploymentObject (api (Some 3) 3 0)\<rparr>, callAt 2)]) =
       (newTracker None [], [Log WatchError])"
    using first by simp
  have sleeps: "filter isSleep (snd (watchIterations nanoOps (newTracker None [])
        [Inl ''refused'', Inr [], Inl ''refused''])) =
       [Sleep 5000000000, Sleep 5000000000, Sleep 5000000000]"
    using first by (simp add: numeral_3_eq_3)
  from runs stop sleeps show ?thesis
    by simp
qed







section \<open>The poll feeder\<close>



section \<open>A failed pod list\<close>

text \<open>
  Claim C10. When the pod list call fails, \<open>collectResourceMetrics\<close> logs the error and
  writes nothing: the call of \<open>processDeployment\<close> writes none of the eight resource gauges,
  requests and limits included, so the registry keeps what it held for them under every
  label list. Everything else is written as usual: heartbeat, metadata, replica counts,
  availability ratio, conditions and the status tracking, and the tracker is updated by the
  status tracking.
\<close>

theorem C10_pod_list_failure:
  "podList env = Inl err \<longrightarrow>
     collectResourceMetrics Q t env (Namespace d) (Name d) =
       [Log (ErrorListingPods (Namespace d) (Name d) err)]
     \<and> (\<forall>m \<in> resourceMetrics.
          filter (\<lambda>e. metricOf e = Some m) (snd (processDeployment Q t env d)) = []
          \<and> (\<forall>ls. gauges (apply_effects r (snd (processDeployment Q t env d))) (m, ls) =
                gauges r (m, ls)))
     \<and> snd (processDeployment Q t env d) =
         [GaugeSet deploymentHeartbeat [Namespace d, Name d] (F64_of_int (Unix (timeNow env))),
          GaugeSet deploymentCreationTime [Namespace d, Name d]
            (F64_of_int (Unix (CreationTimestamp d))),
          GaugeSet deploymentGeneration [Namespace d, Name d] (F64_of_int (Generation d)),
          GaugeSet deploymentObservedGeneration [Namespace d, Name d]
            (F64_of_int (Status_ObservedGeneration d))]
         @ replicaEffects d @ ratioEffects d
         @ [Log (ErrorListingPods (Namespace d) (Name d) err)]
         @ conditionEffects (Namespace d) (Name d) (Status_Conditions d)
         @ snd (trackStatus (downtimeStart t) (timeNow env) d)
     \<and> fst (processDeployment Q t env d) =
         t\<lparr>downtimeStart := fst (trackStatus (downtimeStart t) (timeNow env) d)\<rparr>"
proof (intro impI)
  assume failed: "podList env = Inl err"
  have collect: "collectResourceMetrics Q t env (Namespace d) (Name d) =
       [Log (ErrorListingPods (Namespace d) (Name d) err)]"
    by (simp add: collectResourceMetrics_def failed)
  have none: "filter (\<lambda>e. metricOf e = Some m) (snd (processDeployment Q t env d)) = []"
    if "m \<in> resourceMetrics" for m
    by (simp add: filter_resource_processDeployment [OF that] collect)
  then have kept: "\<forall>m \<in> resourceMetrics.
          filter (\<lambda>e. metricOf e = Some m) (snd (processDeployment Q t env d)) = []
          \<and> (\<forall>ls. gauges (apply_effects r (snd (processDeployment Q t env d))) (m, ls) =
                gauges r (m, ls))"
    using apply_effects_other [of "snd (processDeployment Q t env d)" _ r]
    by (auto simp: filter_empty_conv)
  have effects: "snd (processDeployment Q t env d) =
         [GaugeSet deploymentHeartbeat [Namespace d, Name d] (F64_of_int (Unix (timeNow env))),
          GaugeSet deploymentCreationTime [Namespace d, Name d]
            (F64_of_int (Unix (CreationTimestamp d))),
          GaugeSet deploymentGeneration [Namespace d, Name d] (F64_of_int (Generation d)),
          GaugeSet deploymentObservedGeneration [Namespace d, Name d]
            (F64_of_int (Status_ObservedGeneration d))]
         @ replicaEffects d @ ratioEffects d
         @ [Log (ErrorListingPods (Namespace d) (Name d) err)]
         @ conditionEffects (Namespace d) (Name d) (Status_Conditions d)
         @ snd (trackStatus (downtimeStart t) (timeNow env) d)"
    by (simp add: snd_processDeployment gaugeEffects_def Let_def collect)
  have tracker: "fst (processDeployment Q t env d) =
         t\<lparr>downtimeStart := fst (trackStatus (downtimeStart t) (timeNow env) d)\<rparr>"
    by (simp add: processDeployment_def split: prod.splits)
  from collect kept effects tracker
  show "collectResourceMetrics Q t env (Namespace d) (Name d) =
       [Log (ErrorListingPods (Namespace d) (Name d) err)]
     \<and> (\<forall>m \<in> resourceMetrics.
          filter (\<lambda>e. metricOf e = Some m) (snd (processDeployment Q t env d)) = []
          \<and> (\<forall>ls. gauges (apply_effects r (snd (processDeployment Q t env d))) (m, ls) =
                gauges r (m, ls)))
     \<and> snd (processDeployment Q t env d) =
         [GaugeSet deploymentHeartbeat [Namespace d, Name d] (F64_of_int (Unix (timeNow env))),
          GaugeSet deploymentCreationTime [Namespace d, Name d]
            (F64_of_int (Unix (CreationTimestamp d))),
          GaugeSet deploymentGeneration [Namespace d, Name d] (F64_of_int (Generation d)),
          GaugeSet deploymentObservedGeneration [Namespace d, Name d]
            (F64_of_int (Status_ObservedGeneration d))]
         @ replicaEffects d @ ratioEffects d
         @ [Log (ErrorListingPods (Namespace d) (Name d) err)]
         @ conditionEffects (Namespace d) (Name d) (Status_Conditions d)
         @ snd (trackStatus (downtimeStart t) (timeNow env) d)
     \<and> fst (processDeployment Q t env d) =
         t\<lparr>downtimeStart := fst (trackStatus (downtimeStart t) (timeNow env) d)\<rparr>"
    by (intro conjI)
qed

theorem C10_pod_list_failure_witness:
  "podList ((callAt 1000)\<lparr>podList := Inl ''forbidden''\<rparr>) = Inl ''forbidden''
   \<and> gauges (apply_effects
        \<lparr>gauges = [(deploymentCPURequest, [''prod'', ''api'']) \<mapsto> F64_of_int 250],
         counters = Map.empty\<rparr>
        (snd (processDeployment nanoOps (newTracker (Some ()) [])
           ((callAt 1000)\<lparr>podList := Inl ''forbidden''\<rparr>) (api (Some 3) 3 0))))
        (deploymentCPURequest, [''prod'', ''api'']) = Some (F64_of_int 250)
   \<and> filter (\<lambda>e. metricOf e = Some deploymentMemoryLimit)
        (snd (processDeployment nanoOps (newTracker (Some ()) [])
           ((callAt 1000)\<lparr>podList := Inl ''forbidden''\<rparr>) (api (Some 3) 3 0))) = []"
proof -
  have failed: "podList ((callAt 1000)\<lparr>podList := Inl ''forbidden''\<rparr>) = Inl ''forbidden''"
    by simp
  have mem: "deploymentCPURequest \<in> resourceMetrics" "deploymentMemoryLimit \<in> resourceMetrics"
    by (simp_all add: resourceMetrics_def)
  have "\<forall>m \<in> resourceMetrics.
      filter (\<lambda>e. metricOf e = Some m)
        (snd (processDeployment nanoOps (newTracker (Some ()) [])
           ((callAt 1000)\<lparr>podList := Inl ''forbidden''\<rparr>) (api (Some 3) 3 0))) = []
      \<and> (\<forall>ls. gauges (apply_effects
            \<lparr>gauges = [(deploymentCPURequest, [''prod'', ''api'']) \<mapsto> F64_of_int 250],
             counters = Map.empty\<rparr>
            (snd (processDeployment nanoOps (newTracker (Some ()) [])
               ((callAt 1000)\<lparr>podList := Inl ''forbidden''\<rparr>) (api (Some 3) 3 0)))) (m, ls) =
          gauges \<lparr>gauges = [(deploymentCPURequest, [''prod'', ''api'']) \<mapsto> F64_of_int 250],
             counters = Map.empty\<rparr> (m, ls))"
    using C10_pod_list_failure [of "(callAt 1000)\<lparr>podList := Inl ''forbidden''\<rparr>"
        "''forbidden''" nanoOps "newTracker (Some ()) []" "api (Some 3) 3 0"
        "\<lparr>gauges = [(deploymentCPURequest, [''prod'', ''api'']) \<mapsto> F64_of_int 250],
          counters = Map.empty\<rparr>"] failed
    by blast
  with mem failed show ?thesis
    by simp
qed

section \<open>Overlapping calls\<close>

text \<open>The two parts of a call, run one right after the other, are the call.\<close>

lemma processDeployment_steps:
  "processDeployment Q t env d =
     (fst (finishStep t env d (fst (lookupStep Q t env d))),
      snd (lookupStep Q t env d) @ snd (finishStep t env d (fst (lookupStep Q t env d))))"
  by (auto simp: processDeployment_def trackStatus_def lookupStep_def finishStep_def Let_def
      split: option.splits)

text \<open>
  Claim C5 fails on the code. The watch feeder and the poll feeder both observe the entity
  \<^verbatim>\<open>prod/api\<close> not ready while it has no record, and the poll call reads the map before the
  watch call writes it. Both calls find no record: the downtime-start gauge is written twice
  and the record created by the watch call (time 10000) is overwritten by the poll call's
  (time 10001), where the same two calls one after the other keep the first record. In the
  same way two overlapping ready calls on an entity with a record both account the
  recovery: the restart counter is incremented twice for the one Down\<open>\<rightarrow>\<close>Up transition of
  the verdicts not-ready, ready, ready.
\<close>

theorem C5_overlapping_calls:
  "map (\<lambda>c. isReady (fst c)) [(api (Some 3) 0 3, callAt 10000), (api (Some 3) 0 3, callAt 10001)]
     = [False, False]
   \<and> filter (\<lambda>e. metricOf e = Some deploymentDowntimeStart)
        (snd (overlapped nanoOps (newTracker None [])
           (api (Some 3) 0 3, callAt 10000) (api (Some 3) 0 3, callAt 10001))) =
       [GaugeSet deploymentDowntimeStart [''prod'', ''api''] (F64_of_int 1700000010),
        GaugeSet deploymentDowntimeStart [''prod'', ''api''] (F64_of_int 1700000010)]
   \<and> downtimeStart (fst (overlapped nanoOps (newTracker None [])
        (api (Some 3) 0 3, callAt 10000) (api (Some 3) 0 3, callAt 10001))) ''prod/api'' =
       Some (atMs 10001)
   \<and> downtimeStart (fst (processEach nanoOps (newTracker None [])
        [(api (Some 3) 0 3, callAt 10000), (api (Some 3) 0 3, callAt 10001)])) ''prod/api'' =
       Some (atMs 10000)
   \<and> length (filter (\<lambda>e. metricOf e = Some deploymentRestartCount)
        (snd (overlapped nanoOps
           (fst (processDeployment nanoOps (newTracker None []) (callAt 10000) (api (Some 3) 0 3)))
           (api (Some 3) 3 0, callAt 12500) (api (Some 3) 3 0, callAt 12501)))) = 2
   \<and> downUp True [False, True, True] = 1"
  by code_simp

end
